theory Spec2Isabelle
  imports Complex_Main
begin

section \<open>Embedding vectors\<close>

text \<open>
  The backend computes on numpy arrays of 32-bit floats. The embedding reads every
  float as a real number, so rounding, NaN and infinities are outside the model, and
  \<^verbatim>\<open>astype(np.float32)\<close> is the identity. A one-dimensional array is a list
  of reals, a two-dimensional array (N x D) is the list of its N rows. The arithmetic
  below is numpy's element-wise arithmetic on arrays of one common shape; numpy raises
  on operands of different shapes, and the statements proved here are about vectors of
  one common dimension D.
\<close>

type_synonym vec = "real list"

definition smul :: "real \<Rightarrow> vec \<Rightarrow> vec" where
  "smul c v = map (\<lambda>x. c * x) v"

definition vadd :: "vec \<Rightarrow> vec \<Rightarrow> vec" where
  "vadd u v = map2 (+) u v"

definition vsub :: "vec \<Rightarrow> vec \<Rightarrow> vec" where
  "vsub u v = map2 (-) u v"

definition vmul :: "vec \<Rightarrow> vec \<Rightarrow> vec" where
  "vmul u v = map2 (*) u v"

definition vdiv :: "vec \<Rightarrow> real \<Rightarrow> vec" where
  "vdiv v n = map (\<lambda>x. x / n) v"

text \<open>\<^verbatim>\<open>np.dot\<close> of two one-dimensional arrays.\<close>

definition dot :: "vec \<Rightarrow> vec \<Rightarrow> real" where
  "dot u v = sum_list (map2 (*) u v)"

text \<open>\<^verbatim>\<open>np.linalg.norm\<close>: the Euclidean norm.\<close>

definition linalg_norm :: "vec \<Rightarrow> real" where
  "linalg_norm v = sqrt (sum_list (map (\<lambda>x. x * x) v))"

text \<open>
  \<^verbatim>\<open>np.mean(rows, axis=0)\<close>: the sum of the rows divided by their number.
  Every caller checks \<^verbatim>\<open>len(rows) > 0\<close> first.
\<close>

fun mean_axis0 :: "vec list \<Rightarrow> vec" where
  "mean_axis0 [] = []"
| "mean_axis0 (r # rs) = vdiv (foldl vadd r rs) (real (length (r # rs)))"

section \<open>Rocchio refinement (rocchio.py)\<close>

record rocchio_algorithm =
  alpha :: real
  beta :: real
  gamma :: real

text \<open>The settings of config.py that the model uses.\<close>

definition ROCCHIO_ALPHA :: real where "ROCCHIO_ALPHA = 1"
definition ROCCHIO_BETA :: real where "ROCCHIO_BETA = 3 / 4"
definition ROCCHIO_GAMMA :: real where "ROCCHIO_GAMMA = 15 / 100"
definition PRF_TOP_K :: int where "PRF_TOP_K = 5"

text \<open>The global instance \<^verbatim>\<open>rocchio = RocchioAlgorithm()\<close>.\<close>

definition rocchio :: rocchio_algorithm where
  "rocchio = \<lparr>alpha = ROCCHIO_ALPHA, beta = ROCCHIO_BETA, gamma = ROCCHIO_GAMMA\<rparr>"

text \<open>
  \<^verbatim>\<open>RocchioAlgorithm.refine_query\<close>. The optional arrays are options; an
  array that is present may still hold no row.
\<close>

definition refine_query ::
  "rocchio_algorithm \<Rightarrow> vec \<Rightarrow> vec list option \<Rightarrow> vec list option \<Rightarrow> vec option \<Rightarrow> real \<Rightarrow> vec"
where
  "refine_query self query_vector relevant_vectors non_relevant_vectors
       text_modification_vector text_weight =
    (let refined = smul (alpha self) query_vector;
         refined = (case relevant_vectors of
                      None \<Rightarrow> refined
                    | Some rel \<Rightarrow>
                        if length rel > 0
                        then vadd refined (smul (beta self) (mean_axis0 rel))
                        else refined);
         refined = (case non_relevant_vectors of
                      None \<Rightarrow> refined
                    | Some nonrel \<Rightarrow>
                        if length nonrel > 0
                        then vsub refined (smul (gamma self) (mean_axis0 nonrel))
                        else refined);
         refined = (case text_modification_vector of
                      None \<Rightarrow> refined
                    | Some t \<Rightarrow> vadd (smul (1 - text_weight) refined) (smul text_weight t));
         norm = linalg_norm refined
     in if norm > 0 then vdiv refined norm else refined)"

text \<open>
  Python's slice \<^verbatim>\<open>xs[:m]\<close>: a negative bound counts from the end.
\<close>

definition slice_to :: "'a list \<Rightarrow> int \<Rightarrow> 'a list" where
  "slice_to xs m =
     (if m < 0 then take (nat (int (length xs) + m)) xs else take (nat m) xs)"

text \<open>
  \<^verbatim>\<open>RocchioAlgorithm.pseudo_relevance_feedback\<close>; it calls
  \<^verbatim>\<open>refine_query\<close> with the default text weight 0.3 and no text vector.
\<close>

definition pseudo_relevance_feedback ::
  "rocchio_algorithm \<Rightarrow> vec \<Rightarrow> vec list \<Rightarrow> int option \<Rightarrow> vec"
where
  "pseudo_relevance_feedback self query_vector top_vectors top_m_opt =
    (let top_m = (case top_m_opt of Some m \<Rightarrow> m | None \<Rightarrow> PRF_TOP_K);
         relevant_vectors =
           (if int (length top_vectors) \<ge> top_m then slice_to top_vectors top_m
            else top_vectors)
     in refine_query self query_vector (Some relevant_vectors) None None (3 / 10))"

section \<open>Query composition (query_composer.py)\<close>

datatype CompositionMethod = ADDITIVE | INTERPOLATION | RESIDUAL | ATTENTION

record query_composer_cfg =
  default_method :: CompositionMethod
  additive_lambda :: real
  interpolation_alpha :: real
  residual_strength :: real
  attention_temperature :: real

text \<open>The global instance \<^verbatim>\<open>query_composer\<close>.\<close>

definition query_composer :: query_composer_cfg where
  "query_composer =
     \<lparr>default_method = RESIDUAL, additive_lambda = 1 / 2, interpolation_alpha = 6 / 10,
      residual_strength = 8 / 10, attention_temperature = 1\<rparr>"

definition normalize :: "vec \<Rightarrow> vec" where
  "normalize vector =
     (let norm = linalg_norm vector in if norm > 0 then vdiv vector norm else vector)"

definition additive_compose :: "query_composer_cfg \<Rightarrow> vec \<Rightarrow> vec \<Rightarrow> vec" where
  "additive_compose self query text = vadd query (smul (additive_lambda self) text)"

definition interpolation_compose :: "query_composer_cfg \<Rightarrow> vec \<Rightarrow> vec \<Rightarrow> vec" where
  "interpolation_compose self query text =
     vadd (smul (1 - interpolation_alpha self) query) (smul (interpolation_alpha self) text)"

text \<open>
  \<^verbatim>\<open>_residual_compose\<close>. Its local \<^verbatim>\<open>residual\<close>, the component of the
  text that is injected, is a definition of its own.
\<close>

definition residual_of :: "vec \<Rightarrow> vec \<Rightarrow> vec" where
  "residual_of query text =
     (let projection = smul (dot text query) query in vsub text projection)"

definition residual_compose :: "query_composer_cfg \<Rightarrow> vec \<Rightarrow> vec \<Rightarrow> vec" where
  "residual_compose self query text =
     vadd query (smul (residual_strength self) (residual_of query text))"

text \<open>\<^verbatim>\<open>np.clip(x, lo, hi)\<close> on one entry.\<close>

definition clip :: "real \<Rightarrow> real \<Rightarrow> real \<Rightarrow> real" where
  "clip x lo hi = min (max x lo) hi"

text \<open>
  \<^verbatim>\<open>_attention_compose\<close>. Its locals \<^verbatim>\<open>attention_weights\<close> (after the
  clamp) and \<^verbatim>\<open>text_influence\<close> are definitions of their own.
\<close>

definition attention_weights :: "query_composer_cfg \<Rightarrow> vec \<Rightarrow> vec" where
  "attention_weights self text =
     (let text_importance = map abs text;
          w = map (\<lambda>x. exp (x / attention_temperature self)) text_importance;
          w = map (\<lambda>x. x / sum_list w * real (length w)) w
      in map (\<lambda>x. clip x (1 / 2) 2) w)"

definition text_influence :: "query_composer_cfg \<Rightarrow> vec \<Rightarrow> vec" where
  "text_influence self text =
     map (\<lambda>w. (w - 1) / 2 + 1 / 2) (attention_weights self text)"

definition attention_compose :: "query_composer_cfg \<Rightarrow> vec \<Rightarrow> vec \<Rightarrow> vec" where
  "attention_compose self query text =
     (let infl = text_influence self text
      in vadd (vmul (map (\<lambda>x. 1 - x) infl) query) (vmul infl text))"

definition compose :: "query_composer_cfg \<Rightarrow> vec \<Rightarrow> vec \<Rightarrow> CompositionMethod option \<Rightarrow> vec" where
  "compose self query_vector text_vector method_opt =
     (let method = (case method_opt of Some m \<Rightarrow> m | None \<Rightarrow> default_method self);
          query_vector = normalize query_vector;
          text_vector = normalize text_vector;
          result = (case method of
                      ADDITIVE \<Rightarrow> additive_compose self query_vector text_vector
                    | INTERPOLATION \<Rightarrow> interpolation_compose self query_vector text_vector
                    | RESIDUAL \<Rightarrow> residual_compose self query_vector text_vector
                    | ATTENTION \<Rightarrow> attention_compose self query_vector text_vector)
      in normalize result)"

section \<open>Errors\<close>

text \<open>
  Every exception the modelled code can raise: the handlers' \<^verbatim>\<open>HTTPException\<close>
  with its status code and detail, and the Python exceptions of the session manager,
  of list indexing and of the search engine.
\<close>

datatype py_error =
    HTTPException nat string
  | ValueError
  | IndexError
  | AssertionError
  | RuntimeError

definition and_then :: "py_error + 'a \<Rightarrow> ('a \<Rightarrow> py_error + 'b) \<Rightarrow> py_error + 'b" where
  "and_then r f = (case r of Inl e \<Rightarrow> Inl e | Inr v \<Rightarrow> f v)"

section \<open>The nearest-neighbour engine\<close>

text \<open>
  Modelled from the spec: the Nearest-Neighbor Engine is the external library faiss,
  used through \<^verbatim>\<open>faiss.IndexFlatIP\<close>; the repository holds none of its code.
  The spec gives its contract: an inner-product flat index with \<^verbatim>\<open>add(vectors)\<close>,
  \<^verbatim>\<open>search(query, k)\<close> returning scores and slots, \<^verbatim>\<open>reconstruct(slot)\<close>
  and \<^verbatim>\<open>count()\<close>; slots are assigned in insertion order and never reused; scores
  are inner products in descending order, ties in the engine's order. The model is the
  exact flat index: it appends rows, scores every stored row and sorts stably by
  descending score. Like faiss, whose \<^verbatim>\<open>search\<close> asserts \<^verbatim>\<open>k > 0\<close> and whose
  \<^verbatim>\<open>add\<close> and \<^verbatim>\<open>search\<close> assert the dimension, the model rejects rows and
  queries of another dimension, a result count that is not positive, and a slot that is
  not stored. For a count above the number of stored rows faiss pads its answer with the
  slot -1; \<^verbatim>\<open>VectorStore.search\<close> never asks for more than are stored, and the
  model returns the hits there are.
\<close>

record faiss_index =
  dim :: nat
  stored :: "vec list"

definition IndexFlatIP :: "nat \<Rightarrow> faiss_index" where
  "IndexFlatIP n = \<lparr>dim = n, stored = []\<rparr>"

definition ntotal :: "faiss_index \<Rightarrow> nat" where
  "ntotal ix = length (stored ix)"

definition index_add :: "faiss_index \<Rightarrow> vec list \<Rightarrow> py_error + faiss_index" where
  "index_add ix rows =
     (if list_all (\<lambda>r. length r = dim ix) rows
      then Inr (ix\<lparr>stored := stored ix @ rows\<rparr>)
      else Inl AssertionError)"

definition index_search :: "faiss_index \<Rightarrow> vec \<Rightarrow> int \<Rightarrow> py_error + (real \<times> int) list" where
  "index_search ix q k =
     (if length q \<noteq> dim ix \<or> k \<le> 0 then Inl AssertionError
      else Inr (take (nat k)
                 (sort_key (\<lambda>(score, slot). - score)
                    (zip (map (\<lambda>row. dot q row) (stored ix)) (map int [0..<ntotal ix])))))"

definition index_reconstruct :: "faiss_index \<Rightarrow> nat \<Rightarrow> py_error + vec" where
  "index_reconstruct ix slot =
     (if slot < ntotal ix then Inr (stored ix ! slot) else Inl RuntimeError)"

section \<open>The vector store (vector_store.py)\<close>

type_synonym meta_dict = "(string \<times> string) list"

text \<open>One entry of \<^verbatim>\<open>metadata["images"]\<close>.\<close>

record image_data =
  image_id :: string
  filename :: string
  idx :: nat
  metadata :: meta_dict

text \<open>
  The store: the engine's index and the dictionary \<^verbatim>\<open>self.metadata\<close> with its two
  entries, the list \<^verbatim>\<open>images\<close> and the dictionary \<^verbatim>\<open>id_to_idx\<close>.
\<close>

record vector_store =
  dimension :: nat
  index :: faiss_index
  images :: "image_data list"
  id_to_idx :: "string \<rightharpoonup> nat"

text \<open>\<^verbatim>\<open>VectorStore.clear\<close>, which is also the state of a new store.\<close>

definition clear :: "vector_store \<Rightarrow> vector_store" where
  "clear st = st\<lparr>index := IndexFlatIP (dimension st), images := [], id_to_idx := Map.empty\<rparr>"

text \<open>The argument \<^verbatim>\<open>vectors\<close> of \<^verbatim>\<open>add_vectors\<close> has one or two axes.\<close>

datatype ndarray = Arr1 vec | Arr2 "vec list"

text \<open>
  The loop of \<^verbatim>\<open>add_vectors\<close> over \<^verbatim>\<open>enumerate(zip(image_ids, filenames))\<close>.
  A Python exception leaves the mutations made so far in place, so the loop returns the
  store it reached together with the exception, if any. The id is mapped to its slot
  before \<^verbatim>\<open>metadata_list[i]\<close> is read.
\<close>

fun add_entries ::
  "vector_store \<Rightarrow> nat \<Rightarrow> nat \<Rightarrow> (string \<times> string) list \<Rightarrow> meta_dict list option
     \<Rightarrow> py_error option \<times> vector_store"
where
  "add_entries st start_idx i [] metadata_list = (None, st)"
| "add_entries st start_idx i ((img_id, fname) # rest) metadata_list =
     (let slot = start_idx + i;
          st = st\<lparr>id_to_idx := (id_to_idx st)(img_id \<mapsto> slot)\<rparr>;
          entry_meta =
            (case metadata_list of
               None \<Rightarrow> Inr []
             | Some ml \<Rightarrow>
                 if ml = [] then Inr []
                 else if i < length ml then Inr (ml ! i)
                 else Inl IndexError)
      in case entry_meta of
           Inl e \<Rightarrow> (Some e, st)
         | Inr m \<Rightarrow>
             add_entries
               (st\<lparr>images := images st @
                     [\<lparr>image_id = img_id, filename = fname, idx = slot, metadata = m\<rparr>]\<rparr>)
               start_idx (i + 1) rest metadata_list)"

text \<open>
  \<^verbatim>\<open>VectorStore.add_vectors\<close>. A row of norm zero is outside the model: numpy
  stores NaN for it.
\<close>

definition add_vectors ::
  "vector_store \<Rightarrow> ndarray \<Rightarrow> string list \<Rightarrow> string list \<Rightarrow> meta_dict list option
     \<Rightarrow> py_error option \<times> vector_store"
where
  "add_vectors st vectors image_ids filenames metadata_list =
     (let rows = (case vectors of Arr1 v \<Rightarrow> [v] | Arr2 rs \<Rightarrow> rs);
          rows = map (\<lambda>r. vdiv r (linalg_norm r)) rows;
          start_idx = ntotal (index st)
      in case index_add (index st) rows of
           Inl e \<Rightarrow> (Some e, st)
         | Inr ix \<Rightarrow>
             add_entries (st\<lparr>index := ix\<rparr>) start_idx 0 (zip image_ids filenames)
               metadata_list)"

text \<open>The loop of \<^verbatim>\<open>search\<close> over \<^verbatim>\<open>zip(scores[0], indices[0])\<close>.\<close>

fun collect_hits ::
  "image_data list \<Rightarrow> (real \<times> int) list \<Rightarrow> string list \<times> real list \<times> image_data list"
where
  "collect_hits imgs [] = ([], [], [])"
| "collect_hits imgs ((score, slot) # rest) =
     (let (image_ids, similarities, metadata_list) = collect_hits imgs rest
      in if slot \<ge> 0 \<and> slot < int (length imgs)
         then (image_id (imgs ! nat slot) # image_ids, score # similarities,
               (imgs ! nat slot) # metadata_list)
         else (image_ids, similarities, metadata_list))"

text \<open>
  \<^verbatim>\<open>VectorStore.search\<close>. A query of norm zero is outside the model: numpy
  divides it into NaN, where the division below gives the zero vector. What is stated
  about the result of a search on a store that is not empty is stated for a query of
  positive norm.
\<close>

definition search ::
  "vector_store \<Rightarrow> vec \<Rightarrow> int \<Rightarrow> py_error + (string list \<times> real list \<times> image_data list)"
where
  "search st qv top_k =
     (if ntotal (index st) = 0 then Inr ([], [], [])
      else
        let qv = vdiv qv (linalg_norm qv);
            top_k = min top_k (int (ntotal (index st)))
        in and_then (index_search (index st) qv top_k)
             (\<lambda>hits. Inr (collect_hits (images st) hits)))"

definition get_vector :: "vector_store \<Rightarrow> string \<Rightarrow> py_error + vec option" where
  "get_vector st img_id =
     (case id_to_idx st img_id of
        None \<Rightarrow> Inr None
      | Some slot \<Rightarrow> and_then (index_reconstruct (index st) slot) (\<lambda>v. Inr (Some v)))"

fun get_vectors :: "vector_store \<Rightarrow> string list \<Rightarrow> py_error + vec list" where
  "get_vectors st [] = Inr []"
| "get_vectors st (img_id # rest) =
     and_then (get_vector st img_id) (\<lambda>vec.
       and_then (get_vectors st rest) (\<lambda>vectors.
         Inr (case vec of None \<Rightarrow> vectors | Some v \<Rightarrow> v # vectors)))"

definition total_images :: "vector_store \<Rightarrow> nat" where
  "total_images st = ntotal (index st)"

section \<open>Sessions (session_manager.py)\<close>

text \<open>
  Timestamps are numbers; \<^verbatim>\<open>datetime.now()\<close> and \<^verbatim>\<open>uuid.uuid4()\<close> are
  arguments of the functions that call them.
\<close>

record SearchIteration =
  iteration :: nat
  query_vector :: vec
  query_type :: string
  results :: "string list"
  positive_feedback :: "string list"
  negative_feedback :: "string list"
  text_feedback :: "string option"
  timestamp :: nat

record Session =
  session_id :: string
  created_at :: nat
  iterations :: "SearchIteration list"

definition current_iteration :: "Session \<Rightarrow> nat" where
  "current_iteration s = length (iterations s)"

definition current_query_vector :: "Session \<Rightarrow> vec option" where
  "current_query_vector s =
     (if iterations s \<noteq> [] then Some (query_vector (last (iterations s))) else None)"

definition get_all_query_vectors :: "Session \<Rightarrow> vec list" where
  "get_all_query_vectors s = map query_vector (iterations s)"

record SessionManager =
  sessions :: "string \<rightharpoonup> Session"

definition create_session :: "SessionManager \<Rightarrow> string \<Rightarrow> nat \<Rightarrow> string \<times> SessionManager" where
  "create_session sm new_id now =
     (new_id,
      sm\<lparr>sessions := (sessions sm)(new_id \<mapsto>
            \<lparr>session_id = new_id, created_at = now, iterations = []\<rparr>)\<rparr>)"

definition get_session :: "SessionManager \<Rightarrow> string \<Rightarrow> Session option" where
  "get_session sm sid = sessions sm sid"

definition get_or_create_session ::
  "SessionManager \<Rightarrow> string option \<Rightarrow> string \<Rightarrow> nat \<Rightarrow> string \<times> SessionManager"
where
  "get_or_create_session sm sid_opt new_id now =
     (case sid_opt of
        None \<Rightarrow> create_session sm new_id now
      | Some sid \<Rightarrow>
          if sid \<noteq> [] \<and> sessions sm sid \<noteq> None then (sid, sm)
          else create_session sm new_id now)"

text \<open>
  \<^verbatim>\<open>SessionManager.add_iteration\<close>: the iteration number and the manager with
  the iteration appended, or the \<^verbatim>\<open>ValueError\<close> of an unknown session.
\<close>

definition add_iteration ::
  "SessionManager \<Rightarrow> string \<Rightarrow> vec \<Rightarrow> string \<Rightarrow> string list \<Rightarrow> string list option
     \<Rightarrow> string list option \<Rightarrow> string option \<Rightarrow> nat \<Rightarrow> py_error + (nat \<times> SessionManager)"
where
  "add_iteration sm sid qv qtype res pos neg txt now =
     (case sessions sm sid of
        None \<Rightarrow> Inl ValueError
      | Some session \<Rightarrow>
          let it = \<lparr>iteration = current_iteration session + 1,
                    query_vector = qv,
                    query_type = qtype,
                    results = res,
                    positive_feedback = (case pos of None \<Rightarrow> [] | Some p \<Rightarrow> p),
                    negative_feedback = (case neg of None \<Rightarrow> [] | Some n \<Rightarrow> n),
                    text_feedback = txt,
                    timestamp = now\<rparr>;
              session = session\<lparr>iterations := iterations session @ [it]\<rparr>
          in Inr (iteration it, sm\<lparr>sessions := (sessions sm)(sid \<mapsto> session)\<rparr>))"

definition update_last_iteration_feedback ::
  "SessionManager \<Rightarrow> string \<Rightarrow> string list \<Rightarrow> string list \<Rightarrow> string option \<Rightarrow> SessionManager"
where
  "update_last_iteration_feedback sm sid positive_ids negative_ids txt =
     (case sessions sm sid of
        None \<Rightarrow> sm
      | Some session \<Rightarrow>
          if iterations session \<noteq> [] then
            let last_it = (last (iterations session))
                  \<lparr>positive_feedback := positive_ids,
                   negative_feedback := negative_ids,
                   text_feedback := txt\<rparr>;
                session = session\<lparr>iterations := butlast (iterations session) @ [last_it]\<rparr>
            in sm\<lparr>sessions := (sessions sm)(sid \<mapsto> session)\<rparr>
          else sm)"

text \<open>
  Modelled from the spec: the Dimensionality Reducer is the external
  \<^verbatim>\<open>sklearn.decomposition.PCA\<close>; the repository holds none of its code. Its
  contract is \<^verbatim>\<open>fit(vectors)\<close> and \<^verbatim>\<open>transform(vectors)\<close> to 2-D points, one
  per row. A reducer is a function that, fitted on a list of vectors, projects one
  vector; it is an argument of everything that uses it.
\<close>

type_synonym reducer = "vec list \<Rightarrow> vec \<Rightarrow> real \<times> real"

text \<open>A dictionary with the keys x, y and iteration.\<close>

type_synonym point2d = "real \<times> real \<times> nat"

definition get_query_vectors_2d ::
  "reducer \<Rightarrow> SessionManager \<Rightarrow> string \<Rightarrow> vec list option \<Rightarrow> point2d list"
where
  "get_query_vectors_2d pca sm sid reference_vectors =
     (case sessions sm sid of
        None \<Rightarrow> []
      | Some session \<Rightarrow>
          if iterations session = [] then []
          else
            let query_vectors = get_all_query_vectors session
            in if length query_vectors < 2 then [(0, 0, 1)]
               else
                 let all_vectors =
                       (case reference_vectors of
                          None \<Rightarrow> query_vectors
                        | Some refs \<Rightarrow>
                            if length refs > 0 then query_vectors @ refs else query_vectors);
                     projected = map (pca all_vectors) query_vectors
                 in map (\<lambda>(i, (x, y)). (x, y, i + 1)) (enumerate 0 projected))"

section \<open>The request handlers (main.py)\<close>

text \<open>
  The Embedding Oracle \<^verbatim>\<open>encoder.encode_text\<close> is external and an argument of the
  handlers. A handler takes the vector store, which it only reads, and the session
  manager, and returns its response with the session manager it leaves behind, or the
  exception it raises; every exception of the model is raised before the handler
  changes the session manager.
\<close>

datatype FeedbackType = POSITIVE | NEGATIVE

record FeedbackItem =
  fb_image_id :: string
  feedback :: FeedbackType

record RelevanceFeedbackRequest =
  rf_session_id :: string
  feedback_items :: "FeedbackItem list"
  rf_text_feedback :: "string option"
  rf_top_k :: int

record PseudoFeedbackRequest =
  pf_session_id :: string
  top_m :: int
  pf_top_k :: int

record ImageResult =
  res_image_id :: string
  res_filename :: string
  url :: string
  similarity_score :: real
  res_metadata :: meta_dict

record SearchResponse =
  resp_session_id :: string
  resp_iteration :: nat
  resp_results :: "ImageResult list"
  query_vectors :: "point2d list"
  resp_total_images :: nat

text \<open>Python's truth value of an optional string: neither None nor empty.\<close>

definition truthy :: "string option \<Rightarrow> bool" where
  "truthy s = (case s of None \<Rightarrow> False | Some str \<Rightarrow> str \<noteq> [])"

definition create_search_response ::
  "reducer \<Rightarrow> vector_store \<Rightarrow> SessionManager \<Rightarrow> string \<Rightarrow> nat \<Rightarrow> string list \<Rightarrow> real list
     \<Rightarrow> image_data list \<Rightarrow> SearchResponse"
where
  "create_search_response pca vs sm sid it image_ids scores metadata_list =
     \<lparr>resp_session_id = sid,
      resp_iteration = it,
      resp_results =
        map (\<lambda>(img_id, score, m).
               \<lparr>res_image_id = img_id, res_filename = filename m,
                url = ''/images/'' @ filename m, similarity_score = score,
                res_metadata = metadata m\<rparr>)
          (zip image_ids (zip scores metadata_list)),
      query_vectors = get_query_vectors_2d pca sm sid None,
      resp_total_images = total_images vs\<rparr>"

text \<open>
  The refinement of \<^verbatim>\<open>relevance_feedback\<close>: from the feedback vectors to the
  refined query, Rocchio first, then the text.
\<close>

definition feedback_refined_query ::
  "(string \<Rightarrow> vec) \<Rightarrow> vector_store \<Rightarrow> vec \<Rightarrow> string list \<Rightarrow> string list \<Rightarrow> string option
     \<Rightarrow> py_error + vec"
where
  "feedback_refined_query encode_text vs current_query positive_ids negative_ids txt =
     and_then (if positive_ids \<noteq> [] then and_then (get_vectors vs positive_ids) (\<lambda>v. Inr (Some v))
               else Inr None) (\<lambda>positive_vectors.
     and_then (if negative_ids \<noteq> [] then and_then (get_vectors vs negative_ids) (\<lambda>v. Inr (Some v))
               else Inr None) (\<lambda>negative_vectors.
       let present = (\<lambda>vectors. case vectors of None \<Rightarrow> False | Some v \<Rightarrow> length v > 0);
           refined_query = current_query;
           has_image_feedback = (present positive_vectors \<or> present negative_vectors);
           refined_query =
             (if has_image_feedback
              then refine_query rocchio refined_query
                     (if present positive_vectors then positive_vectors else None)
                     (if present negative_vectors then negative_vectors else None)
                     None (3 / 10)
              else refined_query);
           refined_query =
             (if truthy txt
              then let text_vector = encode_text (the txt)
                   in if has_image_feedback
                      then compose query_composer refined_query text_vector (Some ADDITIVE)
                      else compose query_composer refined_query text_vector (Some RESIDUAL)
              else refined_query)
       in Inr refined_query))"

definition relevance_feedback ::
  "(string \<Rightarrow> vec) \<Rightarrow> reducer \<Rightarrow> vector_store \<Rightarrow> SessionManager \<Rightarrow> RelevanceFeedbackRequest
     \<Rightarrow> nat \<Rightarrow> py_error + (SearchResponse \<times> SessionManager)"
where
  "relevance_feedback encode_text pca vs sm request now =
     (case get_session sm (rf_session_id request) of
        None \<Rightarrow> Inl (HTTPException 404 ''Session not found'')
      | Some session \<Rightarrow>
          (case current_query_vector session of
             None \<Rightarrow> Inl (HTTPException 400 ''No previous query in session'')
           | Some current_query \<Rightarrow>
               if feedback_items request = [] \<and> \<not> truthy (rf_text_feedback request)
               then Inl (HTTPException 400 ''At least one type of feedback is required'')
               else
                 let positive_ids =
                       map fb_image_id (filter (\<lambda>f. feedback f = POSITIVE) (feedback_items request));
                     negative_ids =
                       map fb_image_id (filter (\<lambda>f. feedback f = NEGATIVE) (feedback_items request))
                 in and_then (feedback_refined_query encode_text vs current_query positive_ids
                                negative_ids (rf_text_feedback request)) (\<lambda>refined_query.
                    and_then (search vs refined_query (rf_top_k request))
                      (\<lambda>(image_ids, scores, metadata_list).
                    let sm = update_last_iteration_feedback sm (rf_session_id request)
                               positive_ids negative_ids (rf_text_feedback request)
                    in and_then (add_iteration sm (rf_session_id request) refined_query
                                   ''feedback'' image_ids (Some positive_ids) (Some negative_ids)
                                   (rf_text_feedback request) now) (\<lambda>(it, sm).
                       Inr (create_search_response pca vs sm (rf_session_id request) it
                              image_ids scores metadata_list, sm))))))"

text \<open>
  The refinement of \<^verbatim>\<open>pseudo_relevance_feedback\<close>: from the last results to the
  refined query.
\<close>

definition pseudo_refined_query :: "vector_store \<Rightarrow> Session \<Rightarrow> int \<Rightarrow> py_error + vec" where
  "pseudo_refined_query vs session m =
     (case current_query_vector session of
        None \<Rightarrow> Inl (HTTPException 400 ''No previous query in session'')
      | Some current_query \<Rightarrow>
          if iterations session = []
          then Inl (HTTPException 400 ''No previous search in session'')
          else
            let last_results = slice_to (results (last (iterations session))) m
            in and_then (get_vectors vs last_results) (\<lambda>top_vectors.
                 if length top_vectors = 0
                 then Inl (HTTPException 400 ''Could not find vectors for top results'')
                 else Inr (pseudo_relevance_feedback rocchio current_query top_vectors (Some m))))"

definition pseudo_feedback ::
  "reducer \<Rightarrow> vector_store \<Rightarrow> SessionManager \<Rightarrow> PseudoFeedbackRequest \<Rightarrow> nat
     \<Rightarrow> py_error + (SearchResponse \<times> SessionManager)"
where
  "pseudo_feedback pca vs sm request now =
     (case get_session sm (pf_session_id request) of
        None \<Rightarrow> Inl (HTTPException 404 ''Session not found'')
      | Some session \<Rightarrow>
          and_then (pseudo_refined_query vs session (top_m request)) (\<lambda>refined_query.
          and_then (search vs refined_query (pf_top_k request))
            (\<lambda>(image_ids, scores, metadata_list).
          and_then (add_iteration sm (pf_session_id request) refined_query
                      ''pseudo_feedback'' image_ids None None None now) (\<lambda>(it, sm).
             Inr (create_search_response pca vs sm (pf_session_id request) it
                    image_ids scores metadata_list, sm)))))"

section \<open>The specification's Rocchio formula\<close>

text \<open>
  The refinement as the specification words it, to be compared with
  \<^verbatim>\<open>refine_query\<close>: a set of vectors that is not passed is the empty set; the
  refined vector is \<open>\<alpha>\<cdot>query\<close>, plus \<open>\<beta>\<close> times the mean of the relevant vectors
  when there are any, minus \<open>\<gamma>\<close> times the mean of the non-relevant vectors when
  there are any; normalisation leaves a vector of norm zero as it is.
\<close>

definition given :: "vec list option \<Rightarrow> vec list" where
  "given vs = (case vs of None \<Rightarrow> [] | Some rows \<Rightarrow> rows)"

definition spec_normalize :: "vec \<Rightarrow> vec" where
  "spec_normalize v = (if linalg_norm v = 0 then v else vdiv v (linalg_norm v))"

definition spec_refined :: "real \<Rightarrow> real \<Rightarrow> real \<Rightarrow> vec \<Rightarrow> vec list \<Rightarrow> vec list \<Rightarrow> vec" where
  "spec_refined a b g query relevant non_relevant =
     (let refined = smul a query;
          refined = (if relevant \<noteq> [] then vadd refined (smul b (mean_axis0 relevant))
                     else refined);
          refined = (if non_relevant \<noteq> [] then vsub refined (smul g (mean_axis0 non_relevant))
                     else refined)
      in refined)"

section \<open>Sequences of session calls and example values\<close>

text \<open>
  A caller's sequence of \<^verbatim>\<open>add_iteration\<close> and
  \<^verbatim>\<open>update_last_iteration_feedback\<close> calls on one session, run in order; the
  first exception ends the run.
\<close>

datatype session_call =
    RecordIteration vec string "string list" "string list option" "string list option"
      "string option" nat
  | BackfillFeedback "string list" "string list" "string option"

fun run_calls :: "SessionManager \<Rightarrow> string \<Rightarrow> session_call list \<Rightarrow> py_error + SessionManager" where
  "run_calls sm sid [] = Inr sm"
| "run_calls sm sid (RecordIteration qv qtype res pos neg txt now # calls) =
     and_then (add_iteration sm sid qv qtype res pos neg txt now)
       (\<lambda>(n, sm). run_calls sm sid calls)"
| "run_calls sm sid (BackfillFeedback pos neg txt # calls) =
     run_calls (update_last_iteration_feedback sm sid pos neg txt) sid calls"

fun is_record :: "session_call \<Rightarrow> bool" where
  "is_record (RecordIteration qv qtype res pos neg txt now) = True"
| "is_record (BackfillFeedback pos neg txt) = False"

definition numbered :: "SearchIteration list \<Rightarrow> bool" where
  "numbered its = (map iteration its = [1..<Suc (length its)])"

text \<open>An example reducer: the first two coordinates, whatever it was fitted on.\<close>

definition first_two :: reducer where
  "first_two all_vectors v = (v ! 0, v ! 1)"

text \<open>Session managers with one session of zero, one and two iterations.\<close>

definition fresh_manager :: SessionManager where
  "fresh_manager = snd (create_session \<lparr>sessions = Map.empty\<rparr> ''s'' 0)"

definition two_iterations :: SessionManager where
  "two_iterations =
     \<lparr>sessions = [''s'' \<mapsto> \<lparr>session_id = ''s'', created_at = 0, iterations =
        [\<lparr>iteration = 1, query_vector = [1, 0], query_type = ''text'', results = [''A'', ''B''],
          positive_feedback = [], negative_feedback = [], text_feedback = None, timestamp = 0\<rparr>,
         \<lparr>iteration = 2, query_vector = [0, 1], query_type = ''feedback'', results = [''B'', ''A''],
          positive_feedback = [''B''], negative_feedback = [], text_feedback = None,
          timestamp = 1\<rparr>]\<rparr>]\<rparr>"

definition one_iteration :: SessionManager where
  "one_iteration =
     \<lparr>sessions = [''s'' \<mapsto> \<lparr>session_id = ''s'', created_at = 0, iterations =
        [\<lparr>iteration = 1, query_vector = [1, 0], query_type = ''text'', results = [''A'', ''B''],
          positive_feedback = [], negative_feedback = [], text_feedback = None,
          timestamp = 0\<rparr>]\<rparr>]\<rparr>"

text \<open>
  Example stores of dimension 2: an empty one, and the one holding the unit vectors
  \<open>a = (1, 0)\<close>, \<open>b = (0, 1)\<close> and \<open>c = (-1, 0)\<close> under the ids A, B and C.
\<close>

definition empty_store :: vector_store where
  "empty_store = \<lparr>dimension = 2, index = IndexFlatIP 2, images = [], id_to_idx = Map.empty\<rparr>"

definition store_abc :: vector_store where
  "store_abc =
     \<lparr>dimension = 2,
      index = \<lparr>dim = 2, stored = [[1, 0], [0, 1], [- 1, 0]]\<rparr>,
      images = [\<lparr>image_id = ''A'', filename = ''a.jpg'', idx = 0, metadata = []\<rparr>,
                \<lparr>image_id = ''B'', filename = ''b.jpg'', idx = 1, metadata = []\<rparr>,
                \<lparr>image_id = ''C'', filename = ''c.jpg'', idx = 2, metadata = []\<rparr>],
      id_to_idx = [''A'' \<mapsto> 0, ''B'' \<mapsto> 1, ''C'' \<mapsto> 2]\<rparr>"

text \<open>
  An example text encoder, and the session manager of the example session after a
  feedback round that marks C as non-relevant and after the pseudo-feedback round that
  follows it.
\<close>

definition always_a :: "string \<Rightarrow> vec" where
  "always_a s = [1, 0]"

definition after_negative_feedback :: SessionManager where
  "after_negative_feedback =
     \<lparr>sessions = [''s'' \<mapsto> \<lparr>session_id = ''s'', created_at = 0, iterations =
        [\<lparr>iteration = 1, query_vector = [1, 0], query_type = ''text'', results = [''A'', ''B''],
          positive_feedback = [], negative_feedback = [''C''], text_feedback = None,
          timestamp = 0\<rparr>,
         \<lparr>iteration = 2, query_vector = [1, 0], query_type = ''feedback'',
          results = [''A'', ''B''], positive_feedback = [], negative_feedback = [''C''],
          text_feedback = None, timestamp = 1\<rparr>]\<rparr>]\<rparr>"

definition after_pseudo_feedback :: SessionManager where
  "after_pseudo_feedback =
     \<lparr>sessions = [''s'' \<mapsto> \<lparr>session_id = ''s'', created_at = 0, iterations =
        [\<lparr>iteration = 1, query_vector = [1, 0], query_type = ''text'', results = [''A'', ''B''],
          positive_feedback = [], negative_feedback = [''C''], text_feedback = None,
          timestamp = 0\<rparr>,
         \<lparr>iteration = 2, query_vector = [1, 0], query_type = ''feedback'',
          results = [''A'', ''B''], positive_feedback = [], negative_feedback = [''C''],
          text_feedback = None, timestamp = 1\<rparr>,
         \<lparr>iteration = 3, query_vector = [1, 0], query_type = ''pseudo_feedback'',
          results = [''A'', ''B''], positive_feedback = [], negative_feedback = [],
          text_feedback = None, timestamp = 2\<rparr>]\<rparr>]\<rparr>"

section \<open>Vector arithmetic\<close>

lemma length_smul: "length (smul k a) = length a"
  by (simp add: smul_def)

lemma dot_smul: "dot (smul k a) c = k * dot a c"
  unfolding dot_def smul_def
proof (induction a arbitrary: c)
  case Nil
  then show ?case by simp
next
  case (Cons x xs)
  then show ?case by (cases c) (auto simp: algebra_simps)
qed

lemma dot_vsub: "length a = length b \<Longrightarrow> dot (vsub a b) c = dot a c - dot b c"
  unfolding dot_def vsub_def
proof (induction a b arbitrary: c rule: list_induct2)
  case Nil
  then show ?case by simp
next
  case (Cons x xs y ys)
  then show ?case by (cases c) (auto simp: algebra_simps)
qed

lemma dot_self: "dot q q = sum_list (map (\<lambda>x. x * x) q)"
  unfolding dot_def by (induction q) auto

lemma sum_squares_nonneg: "0 \<le> sum_list (map (\<lambda>x. x * x) (v::real list))"
  by (induction v) auto

lemma linalg_norm_nonneg: "0 \<le> linalg_norm v"
  unfolding linalg_norm_def by (simp add: sum_squares_nonneg)

lemma norm_one_dot: "linalg_norm q = 1 \<Longrightarrow> dot q q = 1"
  unfolding linalg_norm_def dot_self by simp

lemma sum_squares_zero:
  "sum_list (map (\<lambda>x. x * x) (v::real list)) = 0 \<Longrightarrow> \<forall>x\<in>set v. x = 0"
proof (induction v)
  case Nil
  then show ?case by simp
next
  case (Cons a v)
  have "0 \<le> a * a" by simp
  moreover have "0 \<le> sum_list (map (\<lambda>x. x * x) v)" by (rule sum_squares_nonneg)
  ultimately have "a * a = 0" "sum_list (map (\<lambda>x. x * x) v) = 0"
    using Cons.prems add_nonneg_eq_0_iff [of "a * a" "sum_list (map (\<lambda>x. x * x) v)"] by auto
  then show ?case using Cons.IH by simp
qed

lemma norm_zero_entries: "linalg_norm v = 0 \<Longrightarrow> \<forall>x\<in>set v. x = 0"
  unfolding linalg_norm_def using sum_squares_zero by simp

section \<open>Rocchio refinement follows the specification's formula\<close>

lemma refine_query_spec:
  "refine_query self q rel nonrel None tw =
     spec_normalize (spec_refined (alpha self) (beta self) (gamma self) q (given rel) (given nonrel))"
  using linalg_norm_nonneg
  by (auto simp: refine_query_def spec_normalize_def spec_refined_def given_def Let_def
        order_less_le split: option.splits)

text \<open>
  C1. Without a text vector, \<^verbatim>\<open>refine_query\<close> returns the normalisation of
  \<open>\<alpha>\<cdot>query\<close>, plus \<open>\<beta>\<close> times the mean of the relevant vectors when there are
  any, minus \<open>\<gamma>\<close> times the mean of the non-relevant vectors when there are any.
  When that vector has norm zero, it is returned as it is, and it is the zero vector.
  With neither relevant nor non-relevant vectors (absent or empty), the result is the
  normalisation of \<open>\<alpha>\<cdot>query\<close>, for every query.
\<close>

theorem refine_query_rocchio:
  "refine_query self q rel nonrel None tw =
     spec_normalize (spec_refined (alpha self) (beta self) (gamma self) q (given rel) (given nonrel))
   \<and> (linalg_norm (spec_refined (alpha self) (beta self) (gamma self) q (given rel) (given nonrel)) = 0
        \<longrightarrow> refine_query self q rel nonrel None tw =
              spec_refined (alpha self) (beta self) (gamma self) q (given rel) (given nonrel)
          \<and> (\<forall>x \<in> set (refine_query self q rel nonrel None tw). x = 0))
   \<and> refine_query self q None None None tw = spec_normalize (smul (alpha self) q)
   \<and> refine_query self q (Some []) (Some []) None tw = spec_normalize (smul (alpha self) q)"
proof -
  let ?r = "spec_refined (alpha self) (beta self) (gamma self) q (given rel) (given nonrel)"
  have main: "refine_query self q rel nonrel None tw = spec_normalize ?r"
    by (rule refine_query_spec)
  have zero: "refine_query self q rel nonrel None tw = ?r
      \<and> (\<forall>x \<in> set (refine_query self q rel nonrel None tw). x = 0)"
    if "linalg_norm ?r = 0"
    using that norm_zero_entries [of ?r] by (simp add: main spec_normalize_def)
  have none: "refine_query self q None None None tw = spec_normalize (smul (alpha self) q)"
    by (simp add: refine_query_spec given_def spec_refined_def)
  have empty: "refine_query self q (Some []) (Some []) None tw = spec_normalize (smul (alpha self) q)"
    by (simp add: refine_query_spec given_def spec_refined_def)
  from main zero none empty show ?thesis by blast
qed

text \<open>
  The degenerate case at work: the query \<open>(0.15, 0)\<close> and the single non-relevant
  vector \<open>(1, 0)\<close> cancel under the default weights.
\<close>

theorem refine_query_rocchio_witness:
  "linalg_norm (spec_refined (alpha rocchio) (beta rocchio) (gamma rocchio) [3 / 20, 0]
       (given None) (given (Some [[1, 0]]))) = 0
   \<and> refine_query rocchio [3 / 20, 0] None (Some [[1, 0]]) None (3 / 10) = [0, 0]"
proof -
  have r: "spec_refined (alpha rocchio) (beta rocchio) (gamma rocchio) [3 / 20, 0]
       (given None) (given (Some [[1, 0]])) = [0, 0]"
    by (simp add: spec_refined_def given_def rocchio_def ROCCHIO_ALPHA_def ROCCHIO_BETA_def
          ROCCHIO_GAMMA_def smul_def vsub_def vdiv_def)
  have n: "linalg_norm (spec_refined (alpha rocchio) (beta rocchio) (gamma rocchio) [3 / 20, 0]
       (given None) (given (Some [[1, 0]]))) = 0"
    by (simp add: r linalg_norm_def)
  from refine_query_rocchio [of rocchio "[3 / 20, 0]" None "Some [[1, 0]]" "3 / 10"] n r
  show ?thesis by (simp add: spec_normalize_def)
qed

section \<open>Residual composition\<close>

text \<open>
  C9. For a query of norm one and a text vector of the same dimension, the component
  that residual composition injects, \<open>t - (t\<cdot>q)q\<close>, has dot product zero with the
  query.
\<close>

theorem residual_orthogonal:
  "length t = length q \<Longrightarrow> linalg_norm q = 1 \<Longrightarrow> dot (residual_of q t) q = 0"
  by (simp add: residual_of_def dot_vsub dot_smul length_smul norm_one_dot)

theorem residual_orthogonal_witness:
  "length [3, 4 :: real] = length [0, 1 :: real] \<and> linalg_norm [0, 1] = 1
   \<and> dot (residual_of [0, 1] [3, 4]) [0, 1] = 0"
proof -
  have l: "length [3, 4 :: real] = length [0, 1 :: real]" by simp
  have n: "linalg_norm [0, 1] = 1" by (simp add: linalg_norm_def)
  from residual_orthogonal [OF l n] l n show ?thesis by simp
qed

section \<open>Attention composition\<close>

lemma clip_bounds: "lo \<le> hi \<Longrightarrow> lo \<le> clip x lo hi \<and> clip x lo hi \<le> hi"
  by (auto simp: clip_def)

lemma attention_weights_range:
  "w \<in> set (attention_weights self t) \<Longrightarrow> 1 / 2 \<le> w \<and> w \<le> 2"
  using clip_bounds [of "1 / 2" 2] by (auto simp: attention_weights_def Let_def)

lemma text_influence_range:
  "x \<in> set (text_influence self t) \<Longrightarrow> 1 / 4 \<le> x \<and> x \<le> 1"
proof -
  assume "x \<in> set (text_influence self t)"
  then obtain w where w: "w \<in> set (attention_weights self t)" and x: "x = (w - 1) / 2 + 1 / 2"
    by (auto simp: text_influence_def)
  from attention_weights_range [OF w] show ?thesis
    unfolding x by (simp add: field_simps)
qed

lemma exp_one_gt_two: "exp (1::real) > 2"
proof -
  have "1 + 1 + (1::real)\<^sup>2 / 2 \<le> exp 1" by (rule exp_lower_Taylor_quadratic) simp
  then show ?thesis by simp
qed

text \<open>
  C4. The attention weights are clamped to \<open>[0.5, 2.0]\<close>, but the influence
  \<open>(weight - 1)/2 + 0.5\<close> is not clipped: for the unit text vector \<open>(1, 0, 0)\<close>
  and temperature 1, the first weight is \<open>3e/(e + 2) > 1.5\<close> and the first influence
  exceeds \<open>0.75\<close>.
\<close>

theorem text_influence_exceeds_three_quarters:
  "text_influence query_composer [1, 0, 0] ! 0 > 3 / 4
   \<and> normalize [1, 0, 0] = [1, 0, 0]"
proof -
  have "text_influence query_composer [1, 0, 0] ! 0
      = (clip (exp 1 / (exp 1 + 2) * 3) (1 / 2) 2 - 1) / 2 + 1 / 2"
    by (simp add: text_influence_def attention_weights_def query_composer_def Let_def add.commute)
  moreover have "exp (1::real) / (exp 1 + 2) * 3 > 3 / 2"
    using exp_one_gt_two by (simp add: field_simps)
  ultimately have "text_influence query_composer [1, 0, 0] ! 0 > 3 / 4"
    by (simp add: clip_def min_def max_def)
  moreover have "normalize [1, 0, 0] = [1, 0, 0]"
    by (simp add: normalize_def linalg_norm_def vdiv_def)
  ultimately show ?thesis by simp
qed

section \<open>Iteration numbering\<close>

lemma numbered_nth: "numbered its \<Longrightarrow> i < length its \<Longrightarrow> iteration (its ! i) = i + 1"
proof -
  assume n: "numbered its" and i: "i < length its"
  have "iteration (its ! i) = map iteration its ! i" using i by simp
  also have "\<dots> = [1..<Suc (length its)] ! i" using n by (simp add: numbered_def)
  also have "\<dots> = i + 1" using i by (simp del: upt_Suc)
  finally show ?thesis .
qed

lemma numbered_append:
  "numbered its \<Longrightarrow> iteration it = length its + 1 \<Longrightarrow> numbered (its @ [it])"
  by (simp add: numbered_def)

lemma numbered_update_last:
  "numbered its \<Longrightarrow> its \<noteq> [] \<Longrightarrow>
   numbered (butlast its @ [(last its)\<lparr>positive_feedback := p, negative_feedback := n, text_feedback := t\<rparr>])"
proof -
  assume a: "numbered its" "its \<noteq> []"
  have "map iteration (butlast its @ [(last its)\<lparr>positive_feedback := p, negative_feedback := n, text_feedback := t\<rparr>])
      = map iteration (butlast its @ [last its])" by simp
  also have "\<dots> = map iteration its" using a(2) by simp
  finally show ?thesis using a by (simp add: numbered_def)
qed

lemma add_iteration_session:
  "sessions sm sid = Some s \<Longrightarrow>
   add_iteration sm sid qv qtype res pos neg tf now =
     Inr (length (iterations s) + 1,
          sm\<lparr>sessions := (sessions sm)(sid \<mapsto> s\<lparr>iterations := iterations s @
            [\<lparr>iteration = length (iterations s) + 1, query_vector = qv, query_type = qtype,
              results = res,
              positive_feedback = (case pos of None \<Rightarrow> [] | Some p \<Rightarrow> p),
              negative_feedback = (case neg of None \<Rightarrow> [] | Some n \<Rightarrow> n),
              text_feedback = tf, timestamp = now\<rparr>]\<rparr>)\<rparr>)"
  by (simp add: add_iteration_def Let_def current_iteration_def)

lemma update_last_session:
  "sessions sm sid = Some s \<Longrightarrow>
   \<exists>s'. sessions (update_last_iteration_feedback sm sid p n t) sid = Some s'
     \<and> length (iterations s') = length (iterations s)
     \<and> (numbered (iterations s) \<longrightarrow> numbered (iterations s'))"
  using numbered_update_last
  by (auto simp: update_last_iteration_feedback_def Let_def)

lemma update_last_length:
  "map_option (\<lambda>s. length (iterations s)) (sessions (update_last_iteration_feedback sm sid p n t) sid')
   = map_option (\<lambda>s. length (iterations s)) (sessions sm sid')"
  by (auto simp: update_last_iteration_feedback_def Let_def split: option.splits)

lemma run_calls_numbered:
  "sessions sm sid = Some s \<Longrightarrow> numbered (iterations s) \<Longrightarrow>
   \<exists>sm' s'. run_calls sm sid calls = Inr sm' \<and> sessions sm' sid = Some s'
      \<and> numbered (iterations s')
      \<and> length (iterations s') = length (iterations s) + length (filter is_record calls)"
proof (induction calls arbitrary: sm s)
  case Nil
  then show ?case by simp
next
  case (Cons c calls)
  show ?case
  proof (cases c)
    case (RecordIteration qv qtype res pos neg tf now)
    let ?it = "\<lparr>iteration = length (iterations s) + 1, query_vector = qv, query_type = qtype,
              results = res,
              positive_feedback = (case pos of None \<Rightarrow> [] | Some p \<Rightarrow> p),
              negative_feedback = (case neg of None \<Rightarrow> [] | Some n \<Rightarrow> n),
              text_feedback = tf, timestamp = now\<rparr>"
    let ?s1 = "s\<lparr>iterations := iterations s @ [?it]\<rparr>"
    let ?sm1 = "sm\<lparr>sessions := (sessions sm)(sid \<mapsto> ?s1)\<rparr>"
    have a: "add_iteration sm sid qv qtype res pos neg tf now = Inr (length (iterations s) + 1, ?sm1)"
      by (rule add_iteration_session [OF Cons.prems(1)])
    have s1: "sessions ?sm1 sid = Some ?s1" by simp
    have n1: "numbered (iterations ?s1)"
      using Cons.prems(2) by (simp add: numbered_append)
    from Cons.IH [OF s1 n1] obtain sm' s' where
      r: "run_calls ?sm1 sid calls = Inr sm'" "sessions sm' sid = Some s'" "numbered (iterations s')"
         "length (iterations s') = length (iterations ?s1) + length (filter is_record calls)"
      by blast
    show ?thesis using r a by (simp add: RecordIteration and_then_def)
  next
    case (BackfillFeedback p n t)
    from update_last_session [OF Cons.prems(1), of p n t] Cons.prems(2)
    obtain s1 where s1: "sessions (update_last_iteration_feedback sm sid p n t) sid = Some s1"
      and l1: "length (iterations s1) = length (iterations s)"
      and n1: "numbered (iterations s1)" by blast
    from Cons.IH [OF s1 n1] l1 show ?thesis by (simp add: BackfillFeedback)
  qed
qed

text \<open>
  C8. On a session that starts without iterations, any sequence of
  \<^verbatim>\<open>add_iteration\<close> calls, with \<^verbatim>\<open>update_last_iteration_feedback\<close> calls
  anywhere between them, succeeds and leaves as many iterations as there were
  \<^verbatim>\<open>add_iteration\<close> calls, the i-th (from 0) numbered i+1. And
  \<^verbatim>\<open>update_last_iteration_feedback\<close> changes the number of iterations of no session.
\<close>

theorem iterations_numbered:
  "(sessions sm sid = Some s \<and> iterations s = [] \<longrightarrow>
      (\<exists>sm' s'. run_calls sm sid calls = Inr sm' \<and> sessions sm' sid = Some s'
         \<and> length (iterations s') = length (filter is_record calls)
         \<and> (\<forall>i < length (iterations s'). iteration (iterations s' ! i) = i + 1)))
   \<and> map_option (\<lambda>s. length (iterations s))
        (sessions (update_last_iteration_feedback sm sid' p n t) sid'')
     = map_option (\<lambda>s. length (iterations s)) (sessions sm sid'')"
proof -
  have "\<exists>sm' s'. run_calls sm sid calls = Inr sm' \<and> sessions sm' sid = Some s'
         \<and> length (iterations s') = length (filter is_record calls)
         \<and> (\<forall>i < length (iterations s'). iteration (iterations s' ! i) = i + 1)"
    if a: "sessions sm sid = Some s" and b: "iterations s = []"
  proof -
    have "numbered (iterations s)" using b by (simp add: numbered_def)
    from run_calls_numbered [OF a this, of calls] b obtain sm' s' where
      "run_calls sm sid calls = Inr sm'" "sessions sm' sid = Some s'" "numbered (iterations s')"
      "length (iterations s') = length (filter is_record calls)" by auto
    then show ?thesis using numbered_nth by blast
  qed
  then show ?thesis using update_last_length by blast
qed


theorem iterations_numbered_witness:
  "sessions fresh_manager ''s'' = Some \<lparr>session_id = ''s'', created_at = 0, iterations = []\<rparr>
   \<and> (\<exists>sm' s'. run_calls fresh_manager ''s''
         [RecordIteration [1, 0] ''text'' [''A''] None None None 1,
          BackfillFeedback [''A''] [] None,
          RecordIteration [0, 1] ''feedback'' [''B''] (Some [''A'']) (Some []) None 2] = Inr sm'
       \<and> sessions sm' ''s'' = Some s'
       \<and> length (iterations s') = 2
       \<and> (\<forall>i < length (iterations s'). iteration (iterations s' ! i) = i + 1))"
proof -
  have a: "sessions fresh_manager ''s'' = Some \<lparr>session_id = ''s'', created_at = 0, iterations = []\<rparr>"
    by (simp add: fresh_manager_def create_session_def)
  have b: "iterations \<lparr>session_id = ''s'', created_at = 0, iterations = []\<rparr> = []"
    by simp
  have l: "length (filter is_record
        [RecordIteration [1, 0] ''text'' [''A''] None None None 1,
         BackfillFeedback [''A''] [] None,
         RecordIteration [0, 1] ''feedback'' [''B''] (Some [''A'']) (Some []) None 2]) = 2"
    by simp
  from iterations_numbered [of fresh_manager "''s''"
      "\<lparr>session_id = ''s'', created_at = 0, iterations = []\<rparr>"
      "[RecordIteration [1, 0] ''text'' [''A''] None None None 1,
        BackfillFeedback [''A''] [] None,
        RecordIteration [0, 1] ''feedback'' [''B''] (Some [''A'']) (Some []) None 2]"] a b
  show ?thesis unfolding l by blast
qed

section \<open>The query trajectory\<close>

text \<open>
  C6, the claim as stated fails: a session without iterations gets the empty list, not
  a point at the origin.
\<close>

theorem trajectory_no_iterations:
  "map_option iterations (sessions fresh_manager ''s'') = Some []
   \<and> get_query_vectors_2d first_two fresh_manager ''s'' None = []"
  by (simp add: get_query_vectors_2d_def fresh_manager_def create_session_def)

text \<open>
  C6, amended. For a known session: without iterations the projection is empty; with
  exactly one iteration it is the single point at the origin, labelled 1, whatever the
  reducer and the reference vectors; with two or more iterations it has one point per
  iteration, the i-th (from 0) being the reducer's projection of the i-th query vector,
  fitted on all query vectors and the reference vectors, labelled i+1.
\<close>

theorem trajectory_points:
  "sessions sm sid = Some s \<Longrightarrow>
   (iterations s = [] \<longrightarrow> get_query_vectors_2d pca sm sid refs = [])
   \<and> (length (iterations s) = 1 \<longrightarrow> get_query_vectors_2d pca sm sid refs = [(0, 0, 1)])
   \<and> (2 \<le> length (iterations s) \<longrightarrow>
        length (get_query_vectors_2d pca sm sid refs) = length (iterations s)
        \<and> (\<forall>i < length (iterations s).
              get_query_vectors_2d pca sm sid refs ! i =
                (fst (pca (map query_vector (iterations s) @ given refs)
                        (query_vector (iterations s ! i))),
                 snd (pca (map query_vector (iterations s) @ given refs)
                        (query_vector (iterations s ! i))),
                 i + 1)))"
proof -
  assume s: "sessions sm sid = Some s"
  have e: "get_query_vectors_2d pca sm sid refs = []" if "iterations s = []"
    using s that by (simp add: get_query_vectors_2d_def)
  have o: "get_query_vectors_2d pca sm sid refs = [(0, 0, 1)]" if "length (iterations s) = 1"
    using s that by (auto simp: get_query_vectors_2d_def get_all_query_vectors_def Let_def)
  have m: "length (get_query_vectors_2d pca sm sid refs) = length (iterations s)
        \<and> (\<forall>i < length (iterations s).
              get_query_vectors_2d pca sm sid refs ! i =
                (fst (pca (map query_vector (iterations s) @ given refs)
                        (query_vector (iterations s ! i))),
                 snd (pca (map query_vector (iterations s) @ given refs)
                        (query_vector (iterations s ! i))),
                 i + 1))" if two: "2 \<le> length (iterations s)"
  proof -
    have ne: "iterations s \<noteq> []" using two by auto
    have fit: "(case refs of None \<Rightarrow> map query_vector (iterations s)
                | Some r \<Rightarrow> if length r > 0 then map query_vector (iterations s) @ r
                            else map query_vector (iterations s))
               = map query_vector (iterations s) @ given refs"
      by (auto simp: given_def split: option.splits)
    have r: "get_query_vectors_2d pca sm sid refs =
        map (\<lambda>(i, (x, y)). (x, y, i + 1))
          (enumerate 0 (map (pca (map query_vector (iterations s) @ given refs))
                          (map query_vector (iterations s))))"
      using s ne two fit
      by (simp add: get_query_vectors_2d_def get_all_query_vectors_def Let_def)
    show ?thesis
      by (simp add: r nth_enumerate_eq split_beta)
  qed
  from e o m show ?thesis by blast
qed

theorem trajectory_points_witness:
  "get_query_vectors_2d first_two fresh_manager ''s'' None = []
   \<and> get_query_vectors_2d first_two one_iteration ''s'' None = [(0, 0, 1)]
   \<and> get_query_vectors_2d first_two two_iterations ''s'' None = [(1, 0, 1), (0, 1, 2)]"
proof -
  have a: "sessions fresh_manager ''s'' = Some \<lparr>session_id = ''s'', created_at = 0, iterations = []\<rparr>"
    by (simp add: fresh_manager_def create_session_def)
  have b: "sessions one_iteration ''s'' = Some \<lparr>session_id = ''s'', created_at = 0, iterations =
        [\<lparr>iteration = 1, query_vector = [1, 0], query_type = ''text'', results = [''A'', ''B''],
          positive_feedback = [], negative_feedback = [], text_feedback = None,
          timestamp = 0\<rparr>]\<rparr>"
    by (simp add: one_iteration_def)
  have c: "sessions two_iterations ''s'' = Some \<lparr>session_id = ''s'', created_at = 0, iterations =
        [\<lparr>iteration = 1, query_vector = [1, 0], query_type = ''text'', results = [''A'', ''B''],
          positive_feedback = [], negative_feedback = [], text_feedback = None, timestamp = 0\<rparr>,
         \<lparr>iteration = 2, query_vector = [0, 1], query_type = ''feedback'', results = [''B'', ''A''],
          positive_feedback = [''B''], negative_feedback = [], text_feedback = None,
          timestamp = 1\<rparr>]\<rparr>"
    by (simp add: two_iterations_def)
  have 1: "get_query_vectors_2d first_two fresh_manager ''s'' None = []"
    using trajectory_points [OF a, of first_two None] by simp
  have 2: "get_query_vectors_2d first_two one_iteration ''s'' None = [(0, 0, 1)]"
    using trajectory_points [OF b, of first_two None] by simp
  have 3: "get_query_vectors_2d first_two two_iterations ''s'' None = [(1, 0, 1), (0, 1, 2)]"
  proof -
    from trajectory_points [OF c, of first_two None]
    have l: "length (get_query_vectors_2d first_two two_iterations ''s'' None) = 2"
      and n: "\<forall>i<2. get_query_vectors_2d first_two two_iterations ''s'' None ! i =
               (fst (first_two ([[1, 0], [0, 1]] @ given None) ([[1, 0], [0, 1]] ! i)),
                snd (first_two ([[1, 0], [0, 1]] @ given None) ([[1, 0], [0, 1]] ! i)), i + 1)"
      by (simp_all add: nth_Cons split: nat.splits)
    have "get_query_vectors_2d first_two two_iterations ''s'' None ! 0 = (1, 0, 1)"
      using n by (simp add: first_two_def)
    moreover have "get_query_vectors_2d first_two two_iterations ''s'' None ! 1 = (0, 1, 2)"
      using n by (simp add: first_two_def)
    ultimately show ?thesis using l
      by (cases "get_query_vectors_2d first_two two_iterations ''s'' None" rule: list.exhaust)
         (auto simp: length_Suc_conv)
  qed
  from 1 2 3 show ?thesis by simp
qed


section \<open>The example store\<close>

lemma norm_simps:
  "linalg_norm [1, 0] = 1" "linalg_norm [0, 1] = 1" "linalg_norm [- 1, 0] = 1"
  by (simp_all add: linalg_norm_def)

lemma store_abc_built:
  "add_vectors empty_store (Arr2 [[1, 0], [0, 1], [- 1, 0]]) [''A'', ''B'', ''C'']
     [''a.jpg'', ''b.jpg'', ''c.jpg''] None = (None, store_abc)"
  by (simp add: add_vectors_def empty_store_def store_abc_def IndexFlatIP_def index_add_def
        ntotal_def norm_simps vdiv_def Let_def eval_nat_numeral)

lemma search_abc_top2:
  "search store_abc [1, 0] 2 =
     Inr ([''A'', ''B''], [1, 0],
          [\<lparr>image_id = ''A'', filename = ''a.jpg'', idx = 0, metadata = []\<rparr>,
           \<lparr>image_id = ''B'', filename = ''b.jpg'', idx = 1, metadata = []\<rparr>])"
  by (simp add: search_def store_abc_def ntotal_def norm_simps vdiv_def index_search_def
        and_then_def dot_def Let_def upt_rec)

section \<open>Insertion\<close>

lemma add_entries_ok:
  "(case ml of None \<Rightarrow> True | Some l \<Rightarrow> l = [] \<or> i + length pairs \<le> length l) \<Longrightarrow>
   \<exists>st' new. add_entries st start i pairs ml = (None, st')
     \<and> index st' = index st
     \<and> images st' = images st @ new \<and> map image_id new = map fst pairs
     \<and> (\<forall>img_id \<in> fst ` set pairs. \<exists>j < length pairs.
            fst (pairs ! j) = img_id \<and> id_to_idx st' img_id = Some (start + i + j))
     \<and> (\<forall>img_id. img_id \<notin> fst ` set pairs \<longrightarrow> id_to_idx st' img_id = id_to_idx st img_id)"
proof (induction pairs arbitrary: st i)
  case Nil
  then show ?case by simp
next
  case (Cons p pairs)
  obtain img_id fname where p: "p = (img_id, fname)" by (cases p)
  let ?slot = "start + i"
  let ?st1 = "st\<lparr>id_to_idx := (id_to_idx st)(img_id \<mapsto> ?slot)\<rparr>"
  have "\<exists>m. (case ml of None \<Rightarrow> Inr []
             | Some l \<Rightarrow> if l = [] then Inr [] else if i < length l then Inr (l ! i)
                 else Inl IndexError) = (Inr m :: py_error + meta_dict)"
    using Cons.prems by (cases ml) auto
  then obtain m where m: "(case ml of None \<Rightarrow> Inr []
             | Some l \<Rightarrow> if l = [] then Inr [] else if i < length l then Inr (l ! i)
                 else Inl IndexError) = (Inr m :: py_error + meta_dict)" by blast
  let ?e = "\<lparr>image_id = img_id, filename = fname, idx = ?slot, metadata = m\<rparr>"
  let ?st2 = "?st1\<lparr>images := images ?st1 @ [?e]\<rparr>"
  have step: "add_entries st start i (p # pairs) ml = add_entries ?st2 start (i + 1) pairs ml"
    using m by (simp add: p Let_def)
  have pre: "case ml of None \<Rightarrow> True | Some l \<Rightarrow> l = [] \<or> (i + 1) + length pairs \<le> length l"
    using Cons.prems by (auto split: option.splits)
  from Cons.IH [OF pre, of ?st2] obtain st' new where
    r: "add_entries ?st2 start (i + 1) pairs ml = (None, st')"
    and ix: "index st' = index ?st2"
    and im: "images st' = images ?st2 @ new" "map image_id new = map fst pairs"
    and inb: "\<forall>x \<in> fst ` set pairs. \<exists>j < length pairs.
            fst (pairs ! j) = x \<and> id_to_idx st' x = Some (start + (i + 1) + j)"
    and outb: "\<forall>x. x \<notin> fst ` set pairs \<longrightarrow> id_to_idx st' x = id_to_idx ?st2 x"
    by blast
  have a: "add_entries st start i (p # pairs) ml = (None, st')" using step r by simp
  have b: "index st' = index st" using ix by simp
  have c: "images st' = images st @ (?e # new)" "map image_id (?e # new) = map fst (p # pairs)"
    using im by (simp_all add: p)
  have d: "\<exists>j < length (p # pairs). fst ((p # pairs) ! j) = x \<and> id_to_idx st' x = Some (start + i + j)"
    if x: "x \<in> fst ` set (p # pairs)" for x
  proof (cases "x \<in> fst ` set pairs")
    case True
    with inb obtain j where "j < length pairs" "fst (pairs ! j) = x"
      "id_to_idx st' x = Some (start + (i + 1) + j)" by blast
    then have "Suc j < length (p # pairs) \<and> fst ((p # pairs) ! Suc j) = x
        \<and> id_to_idx st' x = Some (start + i + Suc j)" by simp
    then show ?thesis by blast
  next
    case False
    then have "x = img_id" using x by (simp add: p)
    moreover have "id_to_idx st' x = id_to_idx ?st2 x" using outb False by blast
    ultimately have "0 < length (p # pairs) \<and> fst ((p # pairs) ! 0) = x
        \<and> id_to_idx st' x = Some (start + i + 0)" by (simp add: p)
    then show ?thesis by blast
  qed
  have e: "id_to_idx st' x = id_to_idx st x" if "x \<notin> fst ` set (p # pairs)" for x
    using that outb by (auto simp: p)
  from a b c d e show ?case by blast
qed

text \<open>
  An insert without a metadata list keeps the store well-formed, one metadata entry per
  stored vector, when it gets as many ids and filenames as vectors.
\<close>

lemma add_vectors_wellformed:
  assumes "length (images st) = total_images st"
    and "list_all (\<lambda>r. length r = dim (index st)) rows"
    and "length image_ids = length rows" and "length filenames = length rows"
    and "add_vectors st (Arr2 rows) image_ids filenames None = (err, st')"
  shows "err = None \<and> length (images st') = total_images st'"
proof -
  let ?rows = "map (\<lambda>r. vdiv r (linalg_norm r)) rows"
  let ?ix = "(index st)\<lparr>stored := stored (index st) @ ?rows\<rparr>"
  let ?pairs = "zip image_ids filenames"
  have "list_all (\<lambda>r. length r = dim (index st)) ?rows"
    using assms(2) by (simp add: list_all_iff vdiv_def)
  then have add: "index_add (index st) ?rows = Inr ?ix"
    by (simp add: index_add_def)
  have run: "add_vectors st (Arr2 rows) image_ids filenames None =
      add_entries (st\<lparr>index := ?ix\<rparr>) (ntotal (index st)) 0 ?pairs None"
    by (simp add: add_vectors_def add Let_def)
  have pre: "case None of None \<Rightarrow> True | Some l \<Rightarrow> l = [] \<or> 0 + length ?pairs \<le> length (l :: meta_dict list)"
    by simp
  from add_entries_ok [OF pre, of "st\<lparr>index := ?ix\<rparr>" "ntotal (index st)"]
  obtain st'' new where
    r: "add_entries (st\<lparr>index := ?ix\<rparr>) (ntotal (index st)) 0 ?pairs None = (None, st'')"
    and ix: "index st'' = index (st\<lparr>index := ?ix\<rparr>)"
    and im: "images st'' = images (st\<lparr>index := ?ix\<rparr>) @ new" "map image_id new = map fst ?pairs"
    by blast
  have "length new = length ?pairs" using im(2) by (metis length_map)
  then have "length new = length rows" using assms(3,4) by simp
  then have "length (images st'') = total_images st''"
    using assms(1) ix im(1) by (simp add: total_images_def ntotal_def)
  then show ?thesis using run r assms(5) by simp
qed




section \<open>Search\<close>

lemma collect_hits_valid:
  "\<forall>h \<in> set hits. 0 \<le> snd h \<and> snd h < int (length imgs) \<Longrightarrow>
   collect_hits imgs hits =
     (map (\<lambda>h. image_id (imgs ! nat (snd h))) hits, map fst hits,
      map (\<lambda>h. imgs ! nat (snd h)) hits)"
  by (induction hits) (auto simp: split_beta)

lemma scored_slots_valid:
  "h \<in> set (zip scores (map int [0..<n])) \<Longrightarrow> 0 \<le> snd h \<and> snd h < int n"
  by (cases h) (auto dest!: set_zip_rightD)

lemma index_search_hits:
  "length q = dim ix \<Longrightarrow> 1 \<le> k \<Longrightarrow>
   \<exists>hits. index_search ix q k = Inr hits
     \<and> length hits = min (nat k) (ntotal ix)
     \<and> (\<forall>h \<in> set hits. 0 \<le> snd h \<and> snd h < int (ntotal ix))
     \<and> sorted_wrt (\<ge>) (map fst hits)"
proof -
  assume q: "length q = dim ix" and k: "1 \<le> k"
  let ?scored = "zip (map (\<lambda>row. dot q row) (stored ix)) (map int [0..<ntotal ix])"
  let ?hits = "take (nat k) (sort_key (\<lambda>(score, slot). - score) ?scored)"
  have r: "index_search ix q k = Inr ?hits" using q k by (simp add: index_search_def)
  have l: "length ?hits = min (nat k) (ntotal ix)" by (simp add: ntotal_def)
  have v: "\<forall>h \<in> set ?hits. 0 \<le> snd h \<and> snd h < int (ntotal ix)"
  proof
    fix h assume "h \<in> set ?hits"
    then have "h \<in> set (sort_key (\<lambda>(score, slot). - score) ?scored)" by (rule in_set_takeD)
    then have "h \<in> set ?scored" by simp
    then show "0 \<le> snd h \<and> snd h < int (ntotal ix)" by (rule scored_slots_valid)
  qed
  have "sorted (map (\<lambda>(score, slot). - score) (sort_key (\<lambda>(score, slot). - score) ?scored))"
    by (rule sorted_sort_key)
  then have "sorted_wrt (\<lambda>a b. fst a \<ge> fst b) (sort_key (\<lambda>(score, slot). - score) ?scored)"
    by (simp add: sorted_wrt_map split_beta)
  then have "sorted_wrt (\<lambda>a b. fst a \<ge> fst b) ?hits" by (rule sorted_wrt_take)
  then have s: "sorted_wrt (\<ge>) (map fst ?hits)" by (simp add: sorted_wrt_map)
  from r l v s show ?thesis by blast
qed

text \<open>
  C3, the claim as stated fails: on the store of three vectors, \<^verbatim>\<open>search\<close> with
  \<open>k = 0\<close> hands the engine a result count of 0, which the engine rejects; no empty
  result is returned.
\<close>

theorem search_zero_rejected:
  "total_images store_abc = 3 \<and> search store_abc [1, 0] 0 = Inl AssertionError"
  by (simp add: search_def store_abc_def total_images_def ntotal_def index_search_def
        and_then_def vdiv_def Let_def)

text \<open>
  C3, amended. On a store with one metadata entry per stored vector, for a query of the
  index dimension and of positive norm and for \<open>k \<ge> 1\<close>, \<^verbatim>\<open>search\<close>
  returns exactly \<open>min(k, total)\<close> ids, scores and metadata entries, the scores in
  non-increasing order. On an empty store it returns three empty lists for every query
  and every k.
\<close>

theorem search_count_sorted:
  "(length (images st) = total_images st \<and> length q = dim (index st)
      \<and> 0 < linalg_norm q \<and> 1 \<le> k \<longrightarrow>
      (\<exists>image_ids scores metadata_list.
          search st q k = Inr (image_ids, scores, metadata_list)
        \<and> length image_ids = nat (min k (int (total_images st)))
        \<and> length scores = nat (min k (int (total_images st)))
        \<and> length metadata_list = nat (min k (int (total_images st)))
        \<and> sorted_wrt (\<ge>) scores))
   \<and> (total_images st = 0 \<longrightarrow> search st q k = Inr ([], [], []))"
proof -
  have e: "search st q k = Inr ([], [], [])" if "total_images st = 0"
    using that by (simp add: search_def total_images_def)
  have m: "\<exists>image_ids scores metadata_list.
          search st q k = Inr (image_ids, scores, metadata_list)
        \<and> length image_ids = nat (min k (int (total_images st)))
        \<and> length scores = nat (min k (int (total_images st)))
        \<and> length metadata_list = nat (min k (int (total_images st)))
        \<and> sorted_wrt (\<ge>) scores"
    if wf: "length (images st) = total_images st" and q: "length q = dim (index st)"
      and nz: "0 < linalg_norm q" and k: "1 \<le> k"
  proof (cases "total_images st = 0")
    case True
    then show ?thesis using e by simp
  next
    case False
    let ?n = "ntotal (index st)"
    let ?q = "vdiv q (linalg_norm q)"
    let ?k = "min k (int ?n)"
    have pos: "1 \<le> ?k" using k False by (simp add: total_images_def)
    have len: "length ?q = dim (index st)" using q by (simp add: vdiv_def)
    from index_search_hits [OF len pos] obtain hits where
      h: "index_search (index st) ?q ?k = Inr hits"
      and l: "length hits = min (nat ?k) ?n"
      and v: "\<forall>h \<in> set hits. 0 \<le> snd h \<and> snd h < int ?n"
      and s: "sorted_wrt (\<ge>) (map fst hits)" by blast
    have v': "\<forall>h \<in> set hits. 0 \<le> snd h \<and> snd h < int (length (images st))"
      using v wf by (simp add: total_images_def)
    have r: "search st q k = Inr (collect_hits (images st) hits)"
      using False h by (simp add: search_def total_images_def Let_def and_then_def)
    have l': "length hits = nat (min k (int (total_images st)))"
      using l pos by (simp add: total_images_def min_def split: if_splits)
    show ?thesis
      unfolding r collect_hits_valid [OF v'] using l' s by simp
  qed
  from e m show ?thesis by blast
qed


theorem search_count_sorted_witness:
  "length (images store_abc) = total_images store_abc \<and> length [1, 0 :: real] = dim (index store_abc)
   \<and> 0 < linalg_norm [1, 0] \<and> (1::int) \<le> 2
   \<and> (\<exists>image_ids scores metadata_list.
          search store_abc [1, 0] 2 = Inr (image_ids, scores, metadata_list)
        \<and> length image_ids = 2 \<and> length scores = 2 \<and> length metadata_list = 2
        \<and> sorted_wrt (\<ge>) scores)
   \<and> total_images empty_store = 0 \<and> search empty_store [1, 0] 2 = Inr ([], [], [])"
proof -
  have a: "length (images store_abc) = total_images store_abc"
    by (simp add: store_abc_def total_images_def ntotal_def)
  have b: "length [1, 0 :: real] = dim (index store_abc)" by (simp add: store_abc_def)
  have c: "(1::int) \<le> 2" by simp
  have z: "0 < linalg_norm [1, 0]" by (simp add: norm_simps)
  have n: "nat (min 2 (int (total_images store_abc))) = 2"
    by (simp add: store_abc_def total_images_def ntotal_def)
  have e: "total_images empty_store = 0"
    by (simp add: empty_store_def total_images_def ntotal_def IndexFlatIP_def)
  from search_count_sorted [of store_abc "[1, 0]" 2] a b z c
  have 1: "\<exists>image_ids scores metadata_list.
          search store_abc [1, 0] 2 = Inr (image_ids, scores, metadata_list)
        \<and> length image_ids = 2 \<and> length scores = 2 \<and> length metadata_list = 2
        \<and> sorted_wrt (\<ge>) scores" unfolding n by blast
  from search_count_sorted [of empty_store "[1, 0]" 2] e
  have 2: "search empty_store [1, 0] 2 = Inr ([], [], [])" by blast
  from a b z c 1 e 2 show ?thesis by blast
qed


section \<open>Search and the scale of the query\<close>

lemma sum_squares_smul:
  "sum_list (map (\<lambda>x. x * x) (smul c q)) = c * c * sum_list (map (\<lambda>x. x * x) q)"
  unfolding smul_def by (induction q) (auto simp: algebra_simps)

lemma linalg_norm_smul: "0 \<le> c \<Longrightarrow> linalg_norm (smul c q) = c * linalg_norm q"
  unfolding linalg_norm_def sum_squares_smul
  by (simp add: real_sqrt_mult)

lemma vdiv_smul: "c \<noteq> 0 \<Longrightarrow> vdiv (smul c q) (c * n) = vdiv q n"
  by (simp add: vdiv_def smul_def)

text \<open>
  C10. For a query of positive norm and a positive factor \<open>c\<close>, \<^verbatim>\<open>search\<close>
  gives the same result (ids, scores and metadata, or the same exception) for
  \<open>c\<cdot>q\<close> as for \<open>q\<close>, on every store and for every k.
\<close>

theorem search_scale_invariant:
  "0 < c \<Longrightarrow> 0 < linalg_norm q \<Longrightarrow> search st (smul c q) k = search st q k"
  by (simp add: search_def linalg_norm_smul vdiv_smul)


theorem search_scale_invariant_witness:
  "(0::real) < 2 \<and> 0 < linalg_norm [1, 0]
   \<and> search store_abc (smul 2 [1, 0]) 2 = search store_abc [1, 0] 2"
proof -
  have a: "(0::real) < 2" by simp
  have b: "0 < linalg_norm [1, 0]" by (simp add: norm_simps)
  from search_scale_invariant [OF a b] a b show ?thesis by simp
qed


section \<open>The feedback handlers\<close>

text \<open>What a successful run of each handler leaves in the session manager.\<close>

lemma and_then_Inr: "and_then r f = Inr y \<Longrightarrow> \<exists>v. r = Inr v \<and> f v = Inr y"
  by (cases r) (simp_all add: and_then_def)

lemma pseudo_feedback_Inr:
  assumes "pseudo_feedback pca vs sm request now = Inr (resp, sm')"
  shows "\<exists>session refined_query image_ids scores metadata_list.
      sessions sm (pf_session_id request) = Some session
    \<and> pseudo_refined_query vs session (top_m request) = Inr refined_query
    \<and> search vs refined_query (pf_top_k request) = Inr (image_ids, scores, metadata_list)
    \<and> sm' = sm\<lparr>sessions := (sessions sm)(pf_session_id request \<mapsto>
         session\<lparr>iterations := iterations session @
           [\<lparr>iteration = length (iterations session) + 1, query_vector = refined_query,
             query_type = ''pseudo_feedback'', results = image_ids,
             positive_feedback = [], negative_feedback = [], text_feedback = None,
             timestamp = now\<rparr>]\<rparr>)\<rparr>"
proof -
  from assms obtain session where s: "sessions sm (pf_session_id request) = Some session"
    by (auto simp: pseudo_feedback_def get_session_def split: option.splits)
  from assms s have 1: "and_then (pseudo_refined_query vs session (top_m request)) (\<lambda>refined_query.
          and_then (search vs refined_query (pf_top_k request))
            (\<lambda>(image_ids, scores, metadata_list).
          and_then (add_iteration sm (pf_session_id request) refined_query
                      ''pseudo_feedback'' image_ids None None None now) (\<lambda>(it, sm).
             Inr (create_search_response pca vs sm (pf_session_id request) it
                    image_ids scores metadata_list, sm)))) = Inr (resp, sm')"
    by (simp add: pseudo_feedback_def get_session_def)
  from and_then_Inr [OF 1] obtain rq where
    rq: "pseudo_refined_query vs session (top_m request) = Inr rq"
    and 2: "and_then (search vs rq (pf_top_k request))
            (\<lambda>(image_ids, scores, metadata_list).
          and_then (add_iteration sm (pf_session_id request) rq
                      ''pseudo_feedback'' image_ids None None None now) (\<lambda>(it, sm).
             Inr (create_search_response pca vs sm (pf_session_id request) it
                    image_ids scores metadata_list, sm))) = Inr (resp, sm')" by blast
  from and_then_Inr [OF 2] obtain hits where
    h: "search vs rq (pf_top_k request) = Inr hits"
    and 3: "(\<lambda>(image_ids, scores, metadata_list).
          and_then (add_iteration sm (pf_session_id request) rq
                      ''pseudo_feedback'' image_ids None None None now) (\<lambda>(it, sm).
             Inr (create_search_response pca vs sm (pf_session_id request) it
                    image_ids scores metadata_list, sm))) hits = Inr (resp, sm')" by blast
  obtain image_ids scores metadata_list where hits: "hits = (image_ids, scores, metadata_list)"
    by (cases hits)
  from 3 have "sm' = sm\<lparr>sessions := (sessions sm)(pf_session_id request \<mapsto>
         session\<lparr>iterations := iterations session @
           [\<lparr>iteration = length (iterations session) + 1, query_vector = rq,
             query_type = ''pseudo_feedback'', results = image_ids,
             positive_feedback = [], negative_feedback = [], text_feedback = None,
             timestamp = now\<rparr>]\<rparr>)\<rparr>"
    by (simp add: hits add_iteration_session [OF s] and_then_def)
  with s rq h hits show ?thesis by blast
qed

lemma update_last_nonempty:
  "sessions sm sid = Some session \<Longrightarrow> iterations session \<noteq> [] \<Longrightarrow>
   sessions (update_last_iteration_feedback sm sid p n t) sid =
     Some (session\<lparr>iterations := butlast (iterations session) @
            [(last (iterations session))\<lparr>positive_feedback := p, negative_feedback := n,
               text_feedback := t\<rparr>]\<rparr>)"
  by (simp add: update_last_iteration_feedback_def Let_def)

lemma relevance_feedback_Inr:
  assumes "relevance_feedback enc pca vs sm request now = Inr (resp, sm')"
  shows "\<exists>session refined_query image_ids scores metadata_list.
      sessions sm (rf_session_id request) = Some session
    \<and> iterations session \<noteq> []
    \<and> feedback_refined_query enc vs (query_vector (last (iterations session)))
          (map fb_image_id (filter (\<lambda>f. feedback f = POSITIVE) (feedback_items request)))
          (map fb_image_id (filter (\<lambda>f. feedback f = NEGATIVE) (feedback_items request)))
          (rf_text_feedback request) = Inr refined_query
    \<and> search vs refined_query (rf_top_k request) = Inr (image_ids, scores, metadata_list)
    \<and> sessions sm' (rf_session_id request) =
        Some (session\<lparr>iterations := butlast (iterations session) @
          [(last (iterations session))
             \<lparr>positive_feedback :=
                map fb_image_id (filter (\<lambda>f. feedback f = POSITIVE) (feedback_items request)),
              negative_feedback :=
                map fb_image_id (filter (\<lambda>f. feedback f = NEGATIVE) (feedback_items request)),
              text_feedback := rf_text_feedback request\<rparr>,
           \<lparr>iteration = length (iterations session) + 1, query_vector = refined_query,
             query_type = ''feedback'', results = image_ids,
             positive_feedback =
                map fb_image_id (filter (\<lambda>f. feedback f = POSITIVE) (feedback_items request)),
             negative_feedback =
                map fb_image_id (filter (\<lambda>f. feedback f = NEGATIVE) (feedback_items request)),
             text_feedback = rf_text_feedback request,
             timestamp = now\<rparr>]\<rparr>)"
proof -
  let ?sid = "rf_session_id request"
  let ?pos = "map fb_image_id (filter (\<lambda>f. feedback f = POSITIVE) (feedback_items request))"
  let ?neg = "map fb_image_id (filter (\<lambda>f. feedback f = NEGATIVE) (feedback_items request))"
  let ?tf = "rf_text_feedback request"
  from assms obtain session where s: "sessions sm ?sid = Some session"
    by (auto simp: relevance_feedback_def get_session_def split: option.splits)
  from assms s have ne: "iterations session \<noteq> []"
    by (auto simp: relevance_feedback_def get_session_def current_query_vector_def
          split: if_splits)
  then have cq: "current_query_vector session = Some (query_vector (last (iterations session)))"
    by (simp add: current_query_vector_def)
  let ?cq = "query_vector (last (iterations session))"
  let ?sm1 = "update_last_iteration_feedback sm ?sid ?pos ?neg ?tf"
  let ?s1 = "session\<lparr>iterations := butlast (iterations session) @
            [(last (iterations session))\<lparr>positive_feedback := ?pos, negative_feedback := ?neg,
               text_feedback := ?tf\<rparr>]\<rparr>"
  have s1: "sessions ?sm1 ?sid = Some ?s1" by (rule update_last_nonempty [OF s ne])
  have len1: "length (iterations ?s1) = length (iterations session)" using ne by simp
  from assms s cq have 1: "and_then (feedback_refined_query enc vs ?cq ?pos ?neg ?tf)
       (\<lambda>refined_query.
          and_then (search vs refined_query (rf_top_k request))
            (\<lambda>(image_ids, scores, metadata_list).
               and_then (add_iteration ?sm1 ?sid refined_query ''feedback'' image_ids
                           (Some ?pos) (Some ?neg) ?tf now)
                 (\<lambda>(it, sm). Inr (create_search_response pca vs sm ?sid it image_ids scores
                                     metadata_list, sm)))) = Inr (resp, sm')"
    by (simp add: relevance_feedback_def get_session_def Let_def split: if_splits)
  from and_then_Inr [OF 1] obtain rq where
    rq: "feedback_refined_query enc vs ?cq ?pos ?neg ?tf = Inr rq"
    and 2: "and_then (search vs rq (rf_top_k request))
            (\<lambda>(image_ids, scores, metadata_list).
               and_then (add_iteration ?sm1 ?sid rq ''feedback'' image_ids
                           (Some ?pos) (Some ?neg) ?tf now)
                 (\<lambda>(it, sm). Inr (create_search_response pca vs sm ?sid it image_ids scores
                                     metadata_list, sm))) = Inr (resp, sm')" by blast
  from and_then_Inr [OF 2] obtain hits where
    h: "search vs rq (rf_top_k request) = Inr hits"
    and 3: "(\<lambda>(image_ids, scores, metadata_list).
               and_then (add_iteration ?sm1 ?sid rq ''feedback'' image_ids
                           (Some ?pos) (Some ?neg) ?tf now)
                 (\<lambda>(it, sm). Inr (create_search_response pca vs sm ?sid it image_ids scores
                                     metadata_list, sm))) hits = Inr (resp, sm')" by blast
  obtain image_ids scores metadata_list where hits: "hits = (image_ids, scores, metadata_list)"
    by (cases hits)
  from 3 have "sm' = ?sm1\<lparr>sessions := (sessions ?sm1)(?sid \<mapsto>
         ?s1\<lparr>iterations := iterations ?s1 @
           [\<lparr>iteration = length (iterations ?s1) + 1, query_vector = rq,
             query_type = ''feedback'', results = image_ids,
             positive_feedback = ?pos, negative_feedback = ?neg, text_feedback = ?tf,
             timestamp = now\<rparr>]\<rparr>)\<rparr>"
    by (simp add: hits add_iteration_session [OF s1] and_then_def)
  then have "sessions sm' ?sid = Some (session\<lparr>iterations := butlast (iterations session) @
          [(last (iterations session))
             \<lparr>positive_feedback := ?pos, negative_feedback := ?neg, text_feedback := ?tf\<rparr>,
           \<lparr>iteration = length (iterations session) + 1, query_vector = rq,
             query_type = ''feedback'', results = image_ids,
             positive_feedback = ?pos, negative_feedback = ?neg, text_feedback = ?tf,
             timestamp = now\<rparr>]\<rparr>)"
    using len1 by simp
  with s ne rq h hits show ?thesis by blast
qed

text \<open>The handlers run on the example store and session.\<close>

lemma norm_axis: "linalg_norm [x, 0] = \<bar>x\<bar>"
  by (simp add: linalg_norm_def)

lemma total_abc: "total_images store_abc = 3"
  by (simp add: total_images_def ntotal_def store_abc_def)

lemma get_vectors_C: "get_vectors store_abc [''C''] = Inr [[- 1, 0]]"
  by (simp add: get_vector_def store_abc_def index_reconstruct_def ntotal_def and_then_def)

lemma get_vectors_A: "get_vectors store_abc [''A''] = Inr [[1, 0]]"
  by (simp add: get_vector_def store_abc_def index_reconstruct_def ntotal_def and_then_def)

lemma refined_neg:
  "feedback_refined_query always_a store_abc [1, 0] [] [''C''] None = Inr [1, 0]"
  by (simp add: feedback_refined_query_def get_vectors_C and_then_def truthy_def Let_def
        refine_query_def rocchio_def ROCCHIO_ALPHA_def ROCCHIO_BETA_def ROCCHIO_GAMMA_def
        smul_def vsub_def vadd_def vdiv_def norm_axis del: get_vectors.simps)

lemma feedback_round_run:
  "relevance_feedback always_a first_two store_abc one_iteration
      \<lparr>rf_session_id = ''s'', feedback_items = [\<lparr>fb_image_id = ''C'', feedback = NEGATIVE\<rparr>],
       rf_text_feedback = None, rf_top_k = 2\<rparr> 1
   = Inr (\<lparr>resp_session_id = ''s'', resp_iteration = 2,
           resp_results =
             [\<lparr>res_image_id = ''A'', res_filename = ''a.jpg'', url = ''/images/a.jpg'',
               similarity_score = 1, res_metadata = []\<rparr>,
              \<lparr>res_image_id = ''B'', res_filename = ''b.jpg'', url = ''/images/b.jpg'',
               similarity_score = 0, res_metadata = []\<rparr>],
           query_vectors = [(1, 0, 1), (1, 0, 2)],
           resp_total_images = 3\<rparr>,
          after_negative_feedback)"
  by (simp add: relevance_feedback_def get_session_def one_iteration_def current_query_vector_def
        truthy_def refined_neg and_then_def search_abc_top2 update_last_iteration_feedback_def
        add_iteration_def current_iteration_def Let_def create_search_response_def
        get_query_vectors_2d_def get_all_query_vectors_def first_two_def enumerate_eq_zip upt_rec
        total_abc after_negative_feedback_def numeral_2_eq_2 numeral_3_eq_3)

lemma refine_towards_a:
  "refine_query rocchio [1, 0] (Some [[1, 0]]) None None (3 / 10) = [1, 0]"
  by (simp add: refine_query_def rocchio_def ROCCHIO_ALPHA_def ROCCHIO_BETA_def
        ROCCHIO_GAMMA_def smul_def vadd_def vdiv_def norm_axis Let_def)

lemma pseudo_refined_run:
  "its \<noteq> [] \<Longrightarrow> query_vector (last its) = [1, 0] \<Longrightarrow> results (last its) = ''A'' # others \<Longrightarrow>
   pseudo_refined_query store_abc \<lparr>session_id = sid, created_at = t, iterations = its\<rparr> 1
     = Inr [1, 0]"
  by (simp add: pseudo_refined_query_def current_query_vector_def slice_to_def get_vectors_A
        and_then_def pseudo_relevance_feedback_def refine_towards_a Let_def
        del: get_vectors.simps)

lemma pseudo_round_run:
  "pseudo_feedback first_two store_abc after_negative_feedback
      \<lparr>pf_session_id = ''s'', top_m = 1, pf_top_k = 2\<rparr> 2
   = Inr (\<lparr>resp_session_id = ''s'', resp_iteration = 3,
           resp_results =
             [\<lparr>res_image_id = ''A'', res_filename = ''a.jpg'', url = ''/images/a.jpg'',
               similarity_score = 1, res_metadata = []\<rparr>,
              \<lparr>res_image_id = ''B'', res_filename = ''b.jpg'', url = ''/images/b.jpg'',
               similarity_score = 0, res_metadata = []\<rparr>],
           query_vectors = [(1, 0, 1), (1, 0, 2), (1, 0, 3)],
           resp_total_images = 3\<rparr>,
          after_pseudo_feedback)"
  by (simp add: pseudo_feedback_def get_session_def after_negative_feedback_def
        pseudo_refined_run and_then_def search_abc_top2
        add_iteration_def current_iteration_def Let_def create_search_response_def
        get_query_vectors_2d_def get_all_query_vectors_def first_two_def enumerate_eq_zip upt_rec
        total_abc after_pseudo_feedback_def numeral_2_eq_2 numeral_3_eq_3)

section \<open>Backfilling the preceding iteration\<close>

text \<open>
  C5, the claim as stated fails: the pseudo-feedback round on the example session appends
  iteration 3 and leaves the two earlier iterations as they were; iteration 2 keeps the
  non-relevant id C, which is no feedback of the pseudo round.
\<close>

theorem pseudo_round_no_backfill:
  "pseudo_feedback first_two store_abc after_negative_feedback
      \<lparr>pf_session_id = ''s'', top_m = 1, pf_top_k = 2\<rparr> 2
   = Inr (\<lparr>resp_session_id = ''s'', resp_iteration = 3,
           resp_results =
             [\<lparr>res_image_id = ''A'', res_filename = ''a.jpg'', url = ''/images/a.jpg'',
               similarity_score = 1, res_metadata = []\<rparr>,
              \<lparr>res_image_id = ''B'', res_filename = ''b.jpg'', url = ''/images/b.jpg'',
               similarity_score = 0, res_metadata = []\<rparr>],
           query_vectors = [(1, 0, 1), (1, 0, 2), (1, 0, 3)],
           resp_total_images = 3\<rparr>,
          after_pseudo_feedback)
   \<and> map_option (\<lambda>s. take 2 (iterations s)) (sessions after_pseudo_feedback ''s'')
       = map_option iterations (sessions after_negative_feedback ''s'')
   \<and> map_option (\<lambda>s. negative_feedback (iterations s ! 1)) (sessions after_pseudo_feedback ''s'')
       = Some [''C'']"
  by (simp add: pseudo_round_run) (simp add: after_pseudo_feedback_def after_negative_feedback_def)

text \<open>
  C5, amended. A successful feedback round sets the feedback fields of the session's
  last iteration to the round's positive ids, negative ids and text, and then appends
  the new iteration; a successful pseudo-feedback round only appends its new iteration
  and leaves every earlier iteration as it was.
\<close>

theorem feedback_rounds_backfill:
  "(relevance_feedback enc pca vs sm request now = Inr (resp, sm') \<longrightarrow>
      (\<exists>session new.
          sessions sm (rf_session_id request) = Some session
        \<and> iterations session \<noteq> []
        \<and> map_option iterations (sessions sm' (rf_session_id request)) =
            Some (butlast (iterations session) @
              [(last (iterations session))
                 \<lparr>positive_feedback :=
                    map fb_image_id (filter (\<lambda>f. feedback f = POSITIVE) (feedback_items request)),
                  negative_feedback :=
                    map fb_image_id (filter (\<lambda>f. feedback f = NEGATIVE) (feedback_items request)),
                  text_feedback := rf_text_feedback request\<rparr>,
               new])
        \<and> iteration new = length (iterations session) + 1
        \<and> query_type new = ''feedback''))
   \<and> (pseudo_feedback pca vs sm prequest now = Inr (presp, psm') \<longrightarrow>
      (\<exists>session new.
          sessions sm (pf_session_id prequest) = Some session
        \<and> map_option iterations (sessions psm' (pf_session_id prequest)) =
            Some (iterations session @ [new])
        \<and> iteration new = length (iterations session) + 1
        \<and> query_type new = ''pseudo_feedback''))"
proof (intro conjI impI)
  assume "relevance_feedback enc pca vs sm request now = Inr (resp, sm')"
  from relevance_feedback_Inr [OF this] obtain session rq image_ids where
    "sessions sm (rf_session_id request) = Some session" "iterations session \<noteq> []"
    "sessions sm' (rf_session_id request) =
        Some (session\<lparr>iterations := butlast (iterations session) @
          [(last (iterations session))
             \<lparr>positive_feedback :=
                map fb_image_id (filter (\<lambda>f. feedback f = POSITIVE) (feedback_items request)),
              negative_feedback :=
                map fb_image_id (filter (\<lambda>f. feedback f = NEGATIVE) (feedback_items request)),
              text_feedback := rf_text_feedback request\<rparr>,
           \<lparr>iteration = length (iterations session) + 1, query_vector = rq,
             query_type = ''feedback'', results = image_ids,
             positive_feedback =
                map fb_image_id (filter (\<lambda>f. feedback f = POSITIVE) (feedback_items request)),
             negative_feedback =
                map fb_image_id (filter (\<lambda>f. feedback f = NEGATIVE) (feedback_items request)),
             text_feedback = rf_text_feedback request,
             timestamp = now\<rparr>]\<rparr>)"
    by blast
  then show "\<exists>session new.
          sessions sm (rf_session_id request) = Some session
        \<and> iterations session \<noteq> []
        \<and> map_option iterations (sessions sm' (rf_session_id request)) =
            Some (butlast (iterations session) @
              [(last (iterations session))
                 \<lparr>positive_feedback :=
                    map fb_image_id (filter (\<lambda>f. feedback f = POSITIVE) (feedback_items request)),
                  negative_feedback :=
                    map fb_image_id (filter (\<lambda>f. feedback f = NEGATIVE) (feedback_items request)),
                  text_feedback := rf_text_feedback request\<rparr>,
               new])
        \<and> iteration new = length (iterations session) + 1
        \<and> query_type new = ''feedback''"
    by force
next
  assume "pseudo_feedback pca vs sm prequest now = Inr (presp, psm')"
  from pseudo_feedback_Inr [OF this] obtain session rq image_ids where
    "sessions sm (pf_session_id prequest) = Some session"
    "psm' = sm\<lparr>sessions := (sessions sm)(pf_session_id prequest \<mapsto>
         session\<lparr>iterations := iterations session @
           [\<lparr>iteration = length (iterations session) + 1, query_vector = rq,
             query_type = ''pseudo_feedback'', results = image_ids,
             positive_feedback = [], negative_feedback = [], text_feedback = None,
             timestamp = now\<rparr>]\<rparr>)\<rparr>"
    by blast
  then show "\<exists>session new.
          sessions sm (pf_session_id prequest) = Some session
        \<and> map_option iterations (sessions psm' (pf_session_id prequest)) =
            Some (iterations session @ [new])
        \<and> iteration new = length (iterations session) + 1
        \<and> query_type new = ''pseudo_feedback''"
    by force
qed

theorem feedback_rounds_backfill_witness:
  "(\<exists>resp. relevance_feedback always_a first_two store_abc one_iteration
      \<lparr>rf_session_id = ''s'', feedback_items = [\<lparr>fb_image_id = ''C'', feedback = NEGATIVE\<rparr>],
       rf_text_feedback = None, rf_top_k = 2\<rparr> 1 = Inr (resp, after_negative_feedback))
   \<and> (\<exists>session new.
          sessions one_iteration ''s'' = Some session
        \<and> iterations session \<noteq> []
        \<and> map_option iterations (sessions after_negative_feedback ''s'') =
            Some (butlast (iterations session) @
              [(last (iterations session))
                 \<lparr>positive_feedback := [], negative_feedback := [''C''], text_feedback := None\<rparr>,
               new])
        \<and> iteration new = length (iterations session) + 1
        \<and> query_type new = ''feedback'')
   \<and> (\<exists>resp. pseudo_feedback first_two store_abc after_negative_feedback
      \<lparr>pf_session_id = ''s'', top_m = 1, pf_top_k = 2\<rparr> 2 = Inr (resp, after_pseudo_feedback))
   \<and> (\<exists>session new.
          sessions after_negative_feedback ''s'' = Some session
        \<and> map_option iterations (sessions after_pseudo_feedback ''s'') =
            Some (iterations session @ [new])
        \<and> iteration new = length (iterations session) + 1
        \<and> query_type new = ''pseudo_feedback'')"
proof -
  let ?req = "\<lparr>rf_session_id = ''s'', feedback_items = [\<lparr>fb_image_id = ''C'', feedback = NEGATIVE\<rparr>],
       rf_text_feedback = None, rf_top_k = 2\<rparr>"
  let ?preq = "\<lparr>pf_session_id = ''s'', top_m = 1, pf_top_k = 2\<rparr>"
  from feedback_round_run obtain resp where
    f: "relevance_feedback always_a first_two store_abc one_iteration ?req 1
          = Inr (resp, after_negative_feedback)" by blast
  from pseudo_round_run obtain presp where
    p: "pseudo_feedback first_two store_abc after_negative_feedback ?preq 2
          = Inr (presp, after_pseudo_feedback)" by blast
  note t = feedback_rounds_backfill [where enc = always_a and pca = first_two and vs = store_abc
      and sm = one_iteration and request = ?req and now = 1 and resp = resp
      and sm' = after_negative_feedback]
  note u = feedback_rounds_backfill [where pca = first_two and vs = store_abc
      and sm = after_negative_feedback and prequest = ?preq and now = 2 and presp = presp
      and psm' = after_pseudo_feedback]
  from t f have 1: "\<exists>session new.
          sessions one_iteration ''s'' = Some session
        \<and> iterations session \<noteq> []
        \<and> map_option iterations (sessions after_negative_feedback ''s'') =
            Some (butlast (iterations session) @
              [(last (iterations session))
                 \<lparr>positive_feedback := [], negative_feedback := [''C''], text_feedback := None\<rparr>,
               new])
        \<and> iteration new = length (iterations session) + 1
        \<and> query_type new = ''feedback''" by simp
  from u p have 2: "\<exists>session new.
          sessions after_negative_feedback ''s'' = Some session
        \<and> map_option iterations (sessions after_pseudo_feedback ''s'') =
            Some (iterations session @ [new])
        \<and> iteration new = length (iterations session) + 1
        \<and> query_type new = ''pseudo_feedback''" by simp
  from f p 1 2 show ?thesis by blast
qed

section \<open>Pseudo-relevance feedback is Rocchio refinement\<close>

lemma slice_to_nonneg: "0 \<le> m \<Longrightarrow> slice_to xs m = take (nat m) xs"
  by (simp add: slice_to_def)

lemma prf_take:
  "0 \<le> m \<Longrightarrow> pseudo_relevance_feedback self q tv (Some m) =
     refine_query self q (Some (take (nat (min m (int (length tv)))) tv)) None None (3 / 10)"
  by (auto simp: pseudo_relevance_feedback_def slice_to_nonneg Let_def min_def)

text \<open>
  C7. For \<open>m \<ge> 0\<close>, \<^verbatim>\<open>pseudo_relevance_feedback\<close> is \<^verbatim>\<open>refine_query\<close>
  with the first \<open>min(m, len)\<close> result vectors as the relevant set and no
  non-relevant set. In the handler, for a session of one iteration whose top result has
  the stored vector \<open>v\<close>, the round with \<open>m = 1\<close> refines the session's query
  with \<open>[v]\<close> as the relevant set; and the query a successful round records is the
  one this refinement gives.
\<close>

theorem pseudo_feedback_is_rocchio:
  "(0 \<le> m \<longrightarrow>
      pseudo_relevance_feedback self q top_vectors (Some m) =
        refine_query self q (Some (take (nat (min m (int (length top_vectors)))) top_vectors))
          None None (3 / 10))
   \<and> (iterations session = [it] \<and> results it = rid # others
        \<and> get_vector vs rid = Inr (Some v) \<longrightarrow>
      pseudo_refined_query vs session 1 =
        Inr (refine_query rocchio (query_vector it) (Some [v]) None None (3 / 10)))
   \<and> (pseudo_feedback pca vs sm request now = Inr (resp, sm') \<longrightarrow>
      (\<exists>s refined_query.
          sessions sm (pf_session_id request) = Some s
        \<and> pseudo_refined_query vs s (top_m request) = Inr refined_query
        \<and> map_option current_query_vector (sessions sm' (pf_session_id request)) =
            Some (Some refined_query)))"
proof (intro conjI impI)
  assume "0 \<le> m"
  then show "pseudo_relevance_feedback self q top_vectors (Some m) =
        refine_query self q (Some (take (nat (min m (int (length top_vectors)))) top_vectors))
          None None (3 / 10)"
    by (rule prf_take)
next
  assume a: "iterations session = [it] \<and> results it = rid # others
        \<and> get_vector vs rid = Inr (Some v)"
  then have "get_vectors vs [rid] = Inr [v]" by (simp add: and_then_def)
  then show "pseudo_refined_query vs session 1 =
        Inr (refine_query rocchio (query_vector it) (Some [v]) None None (3 / 10))"
    using a
    by (simp add: pseudo_refined_query_def current_query_vector_def slice_to_def and_then_def
          pseudo_relevance_feedback_def Let_def del: get_vectors.simps)
next
  assume "pseudo_feedback pca vs sm request now = Inr (resp, sm')"
  from pseudo_feedback_Inr [OF this] obtain s rq image_ids where
    "sessions sm (pf_session_id request) = Some s"
    "pseudo_refined_query vs s (top_m request) = Inr rq"
    "sm' = sm\<lparr>sessions := (sessions sm)(pf_session_id request \<mapsto>
         s\<lparr>iterations := iterations s @
           [\<lparr>iteration = length (iterations s) + 1, query_vector = rq,
             query_type = ''pseudo_feedback'', results = image_ids,
             positive_feedback = [], negative_feedback = [], text_feedback = None,
             timestamp = now\<rparr>]\<rparr>)\<rparr>"
    by blast
  then show "\<exists>s refined_query.
          sessions sm (pf_session_id request) = Some s
        \<and> pseudo_refined_query vs s (top_m request) = Inr refined_query
        \<and> map_option current_query_vector (sessions sm' (pf_session_id request)) =
            Some (Some refined_query)"
    by (force simp: current_query_vector_def)
qed

theorem pseudo_feedback_is_rocchio_witness:
  "(0::int) \<le> 1
   \<and> pseudo_relevance_feedback rocchio [1, 0] [[1, 0], [0, 1]] (Some 1) =
       refine_query rocchio [1, 0] (Some [[1, 0]]) None None (3 / 10)
   \<and> get_vector store_abc ''A'' = Inr (Some [1, 0])
   \<and> pseudo_refined_query store_abc
        \<lparr>session_id = ''s'', created_at = 0, iterations =
          [\<lparr>iteration = 1, query_vector = [1, 0], query_type = ''text'', results = [''A'', ''B''],
            positive_feedback = [], negative_feedback = [], text_feedback = None,
            timestamp = 0\<rparr>]\<rparr> 1 =
       Inr (refine_query rocchio [1, 0] (Some [[1, 0]]) None None (3 / 10))
   \<and> (\<exists>resp. pseudo_feedback first_two store_abc after_negative_feedback
      \<lparr>pf_session_id = ''s'', top_m = 1, pf_top_k = 2\<rparr> 2 = Inr (resp, after_pseudo_feedback))
   \<and> (\<exists>s refined_query.
          sessions after_negative_feedback ''s'' = Some s
        \<and> pseudo_refined_query store_abc s 1 = Inr refined_query
        \<and> map_option current_query_vector (sessions after_pseudo_feedback ''s'') =
            Some (Some refined_query))"
proof -
  let ?it = "\<lparr>iteration = 1, query_vector = [1, 0], query_type = ''text'', results = [''A'', ''B''],
            positive_feedback = [], negative_feedback = [], text_feedback = None,
            timestamp = 0\<rparr>"
  let ?s = "\<lparr>session_id = ''s'', created_at = 0, iterations = [?it]\<rparr>"
  let ?preq = "\<lparr>pf_session_id = ''s'', top_m = 1, pf_top_k = 2\<rparr>"
  have a: "(0::int) \<le> 1" by simp
  have g: "get_vector store_abc ''A'' = Inr (Some [1, 0])"
    by (simp add: get_vector_def store_abc_def index_reconstruct_def ntotal_def and_then_def)
  have h: "iterations ?s = [?it] \<and> results ?it = ''A'' # [''B'']
      \<and> get_vector store_abc ''A'' = Inr (Some [1, 0])" using g by simp
  from pseudo_round_run obtain presp where
    p: "pseudo_feedback first_two store_abc after_negative_feedback ?preq 2
          = Inr (presp, after_pseudo_feedback)" by blast
  note t1 = pseudo_feedback_is_rocchio [where m = 1 and self = rocchio and q = "[1, 0]"
      and top_vectors = "[[1, 0], [0, 1]]"]
  note t2 = pseudo_feedback_is_rocchio [where session = ?s and it = ?it and rid = "''A''"
      and others = "[''B'']" and vs = store_abc and v = "[1, 0]"]
  note t3 = pseudo_feedback_is_rocchio [where pca = first_two and vs = store_abc
      and sm = after_negative_feedback and request = ?preq and now = 2 and resp = presp
      and sm' = after_pseudo_feedback]
  from t1 a have 1: "pseudo_relevance_feedback rocchio [1, 0] [[1, 0], [0, 1]] (Some 1) =
       refine_query rocchio [1, 0] (Some [[1, 0]]) None None (3 / 10)" by simp
  from t2 h have 2: "pseudo_refined_query store_abc ?s 1 =
       Inr (refine_query rocchio [1, 0] (Some [[1, 0]]) None None (3 / 10))" by simp
  from t3 p have 3: "\<exists>s refined_query.
          sessions after_negative_feedback ''s'' = Some s
        \<and> pseudo_refined_query store_abc s 1 = Inr refined_query
        \<and> map_option current_query_vector (sessions after_pseudo_feedback ''s'') =
            Some (Some refined_query)" by simp
  from a 1 g 2 p 3 show ?thesis by blast
qed

end
